theory Spec2Isabelle
  imports Complex_Main "HOL-Library.Word" "HOL-Library.Char_ord" "HOL-Library.List_Lexorder"
begin

section \<open>Python values shared by both modules\<close>

text \<open>
  Exceptions are values. Only the classes the handlers of the source tell apart are
  distinguished; \<open>OtherException\<close> stands for every other subclass of \<open>Exception\<close>.
\<close>

datatype py_exc =
    ValueError | IndexError | KeyError | TypeError | AttributeError | OSError | OverflowError
  | OtherException

type_synonym bytes = "8 word list"

section \<open>ai\_service.py\<close>

subsection \<open>The module's global and the libraries it calls\<close>

text \<open>
  The global \<open>model\<close> holds \<open>None\<close> before the first load, \<open>False\<close> after a failed
  load and the Keras model object after a successful one. A Keras model object is
  truthy, so \<open>not model\<close> holds exactly for \<open>None\<close> and \<open>False\<close>.
\<close>

datatype 'm model_var = PyNone | PyFalse | Loaded 'm

text \<open>
  TensorFlow, PIL and NumPy are outside the repository. What they return is a parameter of
  the model:
  \<^item> \<open>tf_load_model n\<close> is the outcome of the \<open>n\<close>-th call (counted from 0) of
    \<open>tf.keras.models.load_model(MODEL_PATH)\<close>: the outcome may differ from call to call,
    since the file on disk may change;
  \<^item> \<open>pil_pipeline\<close> is the body of the try block of \<open>preprocess_image\<close> (open, convert,
    resize, rescale, expand\_dims): the batch tensor, or the exception raised on the way;
  \<^item> \<open>predict\<close> is \<open>model.predict\<close>: a two-dimensional array of scores, one row per
    image of the batch, or an exception.
  Scores are real numbers: NaN and infinities of IEEE floats are not represented.
\<close>

record ('m, 't) ai_env =
  tf_load_model :: "nat \<Rightarrow> py_exc + 'm"
  pil_pipeline :: "bytes \<Rightarrow> py_exc + 't"
  predict :: "'m \<Rightarrow> 't \<Rightarrow> py_exc + real list list"

text \<open>
  The state of the module is the global \<open>model\<close>. \<open>load_calls\<close> is an observation added
  to it: the number of calls of \<open>tf.keras.models.load_model\<close> made so far.
\<close>

record 'm ai_state =
  model :: "'m model_var"
  load_calls :: nat

text \<open>The dict returned by \<open>run_inference\<close>, also the nested \<open>ai_result\<close> of an image record.\<close>

record classification =
  prediction :: string
  probability :: real
  status :: string

subsection \<open>load\_model\<close>

definition load_model :: "('m, 't) ai_env \<Rightarrow> 'm ai_state \<Rightarrow> 'm model_var \<times> 'm ai_state" where
  "load_model env s =
     (case model s of
        PyNone \<Rightarrow>
          (case tf_load_model env (load_calls s) of
             Inr m \<Rightarrow> (Loaded m, s\<lparr>model := Loaded m, load_calls := Suc (load_calls s)\<rparr>)
           | Inl e \<Rightarrow> (PyFalse, s\<lparr>model := PyFalse, load_calls := Suc (load_calls s)\<rparr>))
      | PyFalse \<Rightarrow> (PyFalse, s)
      | Loaded m \<Rightarrow> (Loaded m, s))"

subsection \<open>preprocess\_image\<close>

text \<open>Every exception of the try block is caught and turned into \<open>None\<close>.\<close>

definition preprocess_image :: "('m, 't) ai_env \<Rightarrow> bytes \<Rightarrow> py_exc + 't option" where
  "preprocess_image env image_bytes =
     (case pil_pipeline env image_bytes of
        Inr image_array \<Rightarrow> Inr (Some image_array)
      | Inl e \<Rightarrow> Inr None)"

subsection \<open>NumPy and built-in functions used by run\_inference\<close>

text \<open>
  \<open>np.argmax\<close> along a row scans from the left and moves only to a strictly larger
  entry, so it returns the first position of the maximum. On an empty row it raises
  \<open>ValueError\<close>.
\<close>

fun argmax_scan :: "real list \<Rightarrow> nat \<Rightarrow> real \<Rightarrow> nat \<Rightarrow> nat" where
  "argmax_scan [] i best best_i = best_i"
| "argmax_scan (x # xs) i best best_i =
     (if best < x then argmax_scan xs (Suc i) x i else argmax_scan xs (Suc i) best best_i)"

fun np_argmax_row :: "real list \<Rightarrow> py_exc + nat" where
  "np_argmax_row [] = Inl ValueError"
| "np_argmax_row (x # xs) = Inr (argmax_scan xs 1 x 0)"

fun np_argmax_axis1 :: "real list list \<Rightarrow> py_exc + nat list" where
  "np_argmax_axis1 [] = Inr []"
| "np_argmax_axis1 (row # rows) =
     (case np_argmax_row row of
        Inl e \<Rightarrow> Inl e
      | Inr i \<Rightarrow> (case np_argmax_axis1 rows of Inl e \<Rightarrow> Inl e | Inr is \<Rightarrow> Inr (i # is)))"

text \<open>\<open>np.max\<close> of the whole array; a zero-size array raises \<open>ValueError\<close>.\<close>

definition np_max :: "real list list \<Rightarrow> py_exc + real" where
  "np_max predictions =
     (case concat predictions of [] \<Rightarrow> Inl ValueError | x # xs \<Rightarrow> Inr (fold max xs x))"

text \<open>Indexing a list or an array with a non-negative index.\<close>

definition py_getitem :: "'a list \<Rightarrow> nat \<Rightarrow> py_exc + 'a" where
  "py_getitem xs i = (if i < length xs then Inr (xs ! i) else Inl IndexError)"

text \<open>
  \<open>round(x, ndigits)\<close> on a float rounds the exact value to the nearest multiple of
  \<open>10 ^ (-ndigits)\<close>, a tie going to the even multiple. Python returns the float
  nearest to that multiple; over the reals the model keeps the multiple itself.
\<close>

definition round_half_even :: "real \<Rightarrow> int" where
  "round_half_even y =
     (let f = \<lfloor>y\<rfloor>; d = y - of_int f
      in if d < 1 / 2 then f else if 1 / 2 < d then f + 1 else if even f then f else f + 1)"

definition py_round :: "real \<Rightarrow> nat \<Rightarrow> real" where
  "py_round x ndigits = of_int (round_half_even (x * 10 ^ ndigits)) / 10 ^ ndigits"

subsection \<open>run\_inference\<close>

definition class_labels :: "string list" where
  "class_labels = [''Stage 0 (Normal)'', ''Stage 1'', ''Stage 2'', ''Stage 3 (High-Risk)'']"

text \<open>The body of the try block: any of its steps may raise.\<close>

definition predict_block :: "('m, 't) ai_env \<Rightarrow> 'm \<Rightarrow> 't \<Rightarrow> py_exc + classification" where
  "predict_block env m processed_image =
     (case predict env m processed_image of
        Inl e \<Rightarrow> Inl e
      | Inr predictions \<Rightarrow>
     (case np_argmax_axis1 predictions of
        Inl e \<Rightarrow> Inl e
      | Inr indices \<Rightarrow>
     (case py_getitem indices 0 of
        Inl e \<Rightarrow> Inl e
      | Inr predicted_class_index \<Rightarrow>
     (case np_max predictions of
        Inl e \<Rightarrow> Inl e
      | Inr p \<Rightarrow>
     (case py_getitem class_labels predicted_class_index of
        Inl e \<Rightarrow> Inl e
      | Inr prediction_label \<Rightarrow>
          Inr \<lparr>prediction = prediction_label, probability = py_round p 4,
               status = ''processed''\<rparr>)))))"

definition model_error :: classification where
  "model_error = \<lparr>prediction = ''Model Error'', probability = 0, status = ''failed''\<rparr>"

definition preprocessing_error :: classification where
  "preprocessing_error =
     \<lparr>prediction = ''Preprocessing Error'', probability = 0, status = ''failed''\<rparr>"

definition inference_exception :: classification where
  "inference_exception =
     \<lparr>prediction = ''Inference Exception'', probability = 0, status = ''failed''\<rparr>"

text \<open>
  The result is \<open>Inr\<close> of the returned dict, or \<open>Inl\<close> of an exception that leaves the
  function. The new state of the module is returned with it.
\<close>

definition run_inference ::
  "('m, 't) ai_env \<Rightarrow> 'm ai_state \<Rightarrow> bytes \<Rightarrow> (py_exc + classification) \<times> 'm ai_state" where
  "run_inference env s image_bytes =
     (case load_model env s of
        (PyNone, s') \<Rightarrow> (Inr model_error, s')
      | (PyFalse, s') \<Rightarrow> (Inr model_error, s')
      | (Loaded m, s') \<Rightarrow>
          (case preprocess_image env image_bytes of
             Inl e \<Rightarrow> (Inl e, s')
           | Inr None \<Rightarrow> (Inr preprocessing_error, s')
           | Inr (Some processed_image) \<Rightarrow>
               (case predict_block env m processed_image of
                  Inr result \<Rightarrow> (Inr result, s')
                | Inl e \<Rightarrow> (Inr inference_exception, s'))))"

text \<open>
  A process: the module is imported (its last line calls \<open>load_model\<close> on the fresh
  global), then \<open>run_inference\<close> is called any number of times.
\<close>

definition import_ai_service :: "('m, 't) ai_env \<Rightarrow> 'm ai_state" where
  "import_ai_service env = snd (load_model env \<lparr>model = PyNone, load_calls = 0\<rparr>)"

fun run_inferences ::
  "('m, 't) ai_env \<Rightarrow> 'm ai_state \<Rightarrow> bytes list \<Rightarrow> (py_exc + classification) list \<times> 'm ai_state" where
  "run_inferences env s [] = ([], s)"
| "run_inferences env s (b # bs) =
     (case run_inference env s b of
        (r, s1) \<Rightarrow> (case run_inferences env s1 bs of (rs, s2) \<Rightarrow> (r # rs, s2)))"

section \<open>app.py\<close>

subsection \<open>Strings and paths\<close>

text \<open>
  A Python \<open>str\<close> is modelled by the list of the bytes of its UTF-8 encoding: equal texts
  have equal encodings, and the ASCII characters that the code looks for (the dot and the
  slash of a path) occur in an encoding only as themselves.

  \<open>str.upper\<close> follows the case mapping of the Unicode tables, which are outside the
  repository: it is a parameter \<open>upper\<close> of every handler that calls it. Two texts are
  equal up to letter case when \<open>upper\<close> maps them to the same text. The statements
  about identifiers assume of \<open>upper\<close> only that the upper-case form of a text is
  already in upper case, as it is for \<open>str.upper\<close>. \<open>ascii_upper\<close> is what
  \<open>str.upper\<close> does on ASCII text: the letters a to z move to A to Z, every other
  character stays.
\<close>

definition char_upper :: "char \<Rightarrow> char" where
  "char_upper c =
     (let n = (of_char c :: nat) in if 97 \<le> n \<and> n \<le> 122 then char_of (n - 32) else c)"

definition ascii_upper :: "string \<Rightarrow> string" where
  "ascii_upper s = map char_upper s"

text \<open>\<open>str.rfind\<close> of a single character: the last position of it, or -1.\<close>

fun rfind_from :: "char \<Rightarrow> string \<Rightarrow> int \<Rightarrow> int \<Rightarrow> int" where
  "rfind_from c [] i found = found"
| "rfind_from c (x # xs) i found = rfind_from c xs (i + 1) (if x = c then i else found)"

definition rfind :: "char \<Rightarrow> string \<Rightarrow> int" where
  "rfind c p = rfind_from c p 0 (- 1)"

text \<open>
  \<open>os.path.splitext\<close> (POSIX): the extension starts at the last dot of the last path
  component, unless that component has only dots before it. The while loop over the
  leading dots is the search for a character other than a dot.
\<close>

definition os_path_splitext :: "string \<Rightarrow> string \<times> string" where
  "os_path_splitext p =
     (let sepIndex = rfind (CHR ''/'') p; dotIndex = rfind (CHR ''.'') p
      in if sepIndex < dotIndex \<and>
            list_ex (\<lambda>k. p ! k \<noteq> CHR ''.'') [nat (sepIndex + 1)..<nat dotIndex]
         then (take (nat dotIndex) p, drop (nat dotIndex) p)
         else (p, []))"

text \<open>\<open>os.path.join\<close> of two components (POSIX): an absolute second component wins.\<close>

definition os_path_join :: "string \<Rightarrow> string \<Rightarrow> string" where
  "os_path_join a b =
     (if b \<noteq> [] \<and> hd b = CHR ''/'' then b
      else if a = [] \<or> last a = CHR ''/'' then a @ b
      else a @ ''/'' @ b)"

definition UPLOAD_FOLDER :: string where
  "UPLOAD_FOLDER = ''uploads''"

subsection \<open>JSON values\<close>

text \<open>
  \<open>request.get_json()\<close> returns any JSON value: \<open>None\<close>, a bool, a number, a text, a
  list or a dict. Numbers are real numbers here. A body that is not JSON at all is
  refused by Flask inside \<open>get_json\<close>, before the handler's own checks, and is not a
  value of this type.
\<close>

datatype json =
    JNull
  | JBool bool
  | JNumber real
  | JString string
  | JArray "json list"
  | JObject "string \<Rightarrow> json option"

text \<open>The truth value of a JSON value in a condition.\<close>

fun truthy :: "json \<Rightarrow> bool" where
  "truthy JNull = False"
| "truthy (JBool b) = b"
| "truthy (JNumber x) = (x \<noteq> 0)"
| "truthy (JString t) = (t \<noteq> [])"
| "truthy (JArray xs) = (xs \<noteq> [])"
| "truthy (JObject m) = (m \<noteq> Map.empty)"

definition is_substring :: "string \<Rightarrow> string \<Rightarrow> bool" where
  "is_substring needle t =
     list_ex (\<lambda>k. take (length needle) (drop k t) = needle) [0..<Suc (length t)]"

text \<open>
  \<open>field in data\<close> for a text \<open>field\<close>: a key of a dict, an element of a list, a
  substring of a text; \<open>None\<close>, a bool and a number raise \<open>TypeError\<close>.
\<close>

fun py_in :: "string \<Rightarrow> json \<Rightarrow> py_exc + bool" where
  "py_in field (JObject m) = Inr (m field \<noteq> None)"
| "py_in field (JArray xs) = Inr (JString field \<in> set xs)"
| "py_in field (JString t) = Inr (is_substring field t)"
| "py_in field JNull = Inl TypeError"
| "py_in field (JBool b) = Inl TypeError"
| "py_in field (JNumber x) = Inl TypeError"

text \<open>\<open>data[field]\<close> for a text \<open>field\<close>: only a dict can be indexed by a text.\<close>

fun py_subscript :: "json \<Rightarrow> string \<Rightarrow> py_exc + json" where
  "py_subscript (JObject m) field = (case m field of Some v \<Rightarrow> Inr v | None \<Rightarrow> Inl KeyError)"
| "py_subscript JNull field = Inl TypeError"
| "py_subscript (JBool b) field = Inl TypeError"
| "py_subscript (JNumber x) field = Inl TypeError"
| "py_subscript (JString t) field = Inl TypeError"
| "py_subscript (JArray xs) field = Inl TypeError"

text \<open>
  \<open>all(field in data and data[field] for field in required_fields)\<close>: the fields are
  tested in order, the first one that is absent or falsy ends the test, and an exception
  raised on the way leaves it.
\<close>

fun all_present :: "string list \<Rightarrow> json \<Rightarrow> py_exc + bool" where
  "all_present [] data = Inr True"
| "all_present (field # others) data =
     (case py_in field data of
        Inl e \<Rightarrow> Inl e
      | Inr False \<Rightarrow> Inr False
      | Inr True \<Rightarrow>
          (case py_subscript data field of
             Inl e \<Rightarrow> Inl e
           | Inr v \<Rightarrow> if truthy v then all_present others data else Inr False))"

text \<open>
  \<open>data.get(key)\<close> of a dict: the value, or \<open>None\<close>. It also stands for \<open>data[key]\<close>
  after the test above has shown that \<open>data\<close> is a dict with that key.
\<close>

definition item :: "json \<Rightarrow> string \<Rightarrow> json" where
  "item data key =
     (case data of
        JObject m \<Rightarrow> (case m key of Some v \<Rightarrow> v | None \<Rightarrow> JNull)
      | _ \<Rightarrow> JNull)"

text \<open>\<open>v.upper()\<close>: only a text has the method.\<close>

definition py_upper :: "(string \<Rightarrow> string) \<Rightarrow> json \<Rightarrow> py_exc + string" where
  "py_upper upper v = (case v of JString t \<Rightarrow> Inr (upper t) | _ \<Rightarrow> Inl AttributeError)"

text \<open>
  A value inside an f-string. The handlers format a request value only after its
  \<open>upper\<close> method has returned, so only a text is ever formatted.
\<close>

definition text_of :: "json \<Rightarrow> string" where
  "text_of v = (case v of JString t \<Rightarrow> t | _ \<Rightarrow> [])"

subsection \<open>Documents, collections and the state\<close>

text \<open>
  A stored field holds what the handler wrote: a text the handler built itself, or the
  request's value as it came.
\<close>

record patient =
  neonate_id :: string
  name :: json
  birth_date :: string
  gestational_age :: json
  weight :: "real option"
  parent_name :: json
  parent_phone :: json
  parent_email :: json
  patient_status :: string
  created_at :: string

record appointment =
  appt_patientId :: string
  appt_patientName :: json
  appt_datetime :: string
  appt_type :: json
  appt_status :: string
  appt_created_at :: string

record image_record =
  image_patientId :: string
  image_patientName :: json
  filename :: string
  filepath :: string
  upload_time :: string
  file_size :: string
  image_status :: string
  ai_result :: classification

text \<open>
  A collection is the list of its documents in insertion order. No handler deletes a
  document, so the \<open>_id\<close> that \<open>insert_one\<close> gives a document is modelled as its position
  in the list. The upload folder is a map from paths to file contents.
\<close>

record app_state =
  patients :: "patient list"
  appointments :: "appointment list"
  images :: "image_record list"
  files :: "string \<rightharpoonup> bytes"

definition find_one :: "('a \<Rightarrow> bool) \<Rightarrow> 'a list \<Rightarrow> (nat \<times> 'a) option" where
  "find_one q coll = List.find (\<lambda>(i, d). q d) (enumerate 0 coll)"

text \<open>
  What the handlers read from outside the repository, one value per request:
  \<^item> \<open>parse_date v\<close>: \<open>dateutil.parser.parse(v).isoformat()\<close>, or the exception raised by
    the parser (\<open>ValueError\<close> for a text it cannot read, \<open>OverflowError\<close> for a date out
    of range, \<open>TypeError\<close> for a value that is not a text);
  \<^item> \<open>to_float v\<close>: \<open>float(v)\<close>, or the exception it raises (\<open>ValueError\<close> for a text
    that is not a number, \<open>TypeError\<close> for a list or a dict);
  \<^item> \<open>now\<close>: \<open>datetime.now().isoformat()\<close>;
  \<^item> \<open>uuid_hex\<close>: \<open>uuid.uuid4().hex\<close>;
  \<^item> \<open>save_error\<close>: the exception \<open>file.save\<close> raises, if the disk refuses the write;
  \<^item> \<open>format_mb\<close>: the text of \<open>f"{size / (1024 * 1024):.2f} MB"\<close> for a size in bytes.
\<close>

record app_env =
  parse_date :: "json \<Rightarrow> py_exc + string"
  to_float :: "json \<Rightarrow> py_exc + real"
  now :: string
  uuid_hex :: string
  save_error :: "py_exc option"
  format_mb :: "nat \<Rightarrow> string"

datatype json_body =
    Message string
  | MessageId string nat
  | UploadAck string nat string

record response =
  body :: json_body
  status_code :: nat

subsection \<open>get\_patient\_details\<close>

record patient_details =
  details_patientName :: json
  details_patientId :: string
  details_id :: nat

text \<open>The argument is whatever the caller passes; \<open>neonate_id.upper()\<close> raises on a non-text.\<close>

definition get_patient_details ::
  "(string \<Rightarrow> string) \<Rightarrow> app_state \<Rightarrow> json \<Rightarrow> py_exc + patient_details option" where
  "get_patient_details upper s nid =
     (case py_upper upper nid of
        Inl e \<Rightarrow> Inl e
      | Inr key \<Rightarrow>
          (case find_one (\<lambda>p. neonate_id p = key) (patients s) of
             Some (i, p) \<Rightarrow>
               Inr (Some \<lparr>details_patientName = name p, details_patientId = neonate_id p,
                          details_id = i\<rparr>)
           | None \<Rightarrow> Inr None))"

subsection \<open>add\_patient and get\_all\_patients\<close>

text \<open>
  The handlers return the response, or the exception that leaves the handler (Flask
  answers it with status 500), and the new state.
\<close>

text \<open>
  \<open>float(data.get('weight', 0)) if data.get('weight') else None\<close>: an absent or falsy
  weight is stored as \<open>None\<close>.
\<close>

definition parse_weight :: "app_env \<Rightarrow> json \<Rightarrow> py_exc + real option" where
  "parse_weight env data =
     (if truthy (item data ''weight'')
      then (case to_float env (item data ''weight'') of Inl e \<Rightarrow> Inl e | Inr x \<Rightarrow> Inr (Some x))
      else Inr None)"

text \<open>
  The dict \<open>new_patient\<close>, given the upper-case identifier, the parsed birth date and the
  weight.
\<close>

definition new_patient :: "app_env \<Rightarrow> json \<Rightarrow> string \<Rightarrow> string \<Rightarrow> real option \<Rightarrow> patient" where
  "new_patient env data nid birth wt =
     \<lparr>neonate_id = nid,
      name = item data ''name'',
      birth_date = birth,
      gestational_age = item data ''gestational_age'',
      weight = wt,
      parent_name = item data ''parent_name'',
      parent_phone = item data ''parent_phone'',
      parent_email = item data ''parent_email'',
      patient_status = ''Active'',
      created_at = now env\<rparr>"

text \<open>
  The uniqueness test calls \<open>upper\<close> on the identifier outside any try block. Building
  the dict may raise: only \<open>ValueError\<close> is caught (status 400), any other exception
  leaves the handler.
\<close>

definition add_patient ::
  "(string \<Rightarrow> string) \<Rightarrow> app_env \<Rightarrow> app_state \<Rightarrow> json \<Rightarrow> (py_exc + response) \<times> app_state" where
  "add_patient upper env s data =
     (case all_present [''name'', ''neonate_id'', ''birth_date'', ''parent_name''] data of
        Inl e \<Rightarrow> (Inl e, s)
      | Inr False \<Rightarrow>
          (Inr \<lparr>body = Message ''Missing required patient fields.'', status_code = 400\<rparr>, s)
      | Inr True \<Rightarrow>
     (case py_upper upper (item data ''neonate_id'') of
        Inl e \<Rightarrow> (Inl e, s)
      | Inr nid \<Rightarrow>
          if find_one (\<lambda>p. neonate_id p = nid) (patients s) \<noteq> None then
            (Inr \<lparr>body = Message (''Patient ID '' @ text_of (item data ''neonate_id'') @
                                  '' already exists.''),
                  status_code = 409\<rparr>, s)
          else
     (case parse_date env (item data ''birth_date'') of
        Inl e \<Rightarrow>
          (if e = ValueError
           then (Inr \<lparr>body = Message ''Invalid date or number format provided.'',
                      status_code = 400\<rparr>, s)
           else (Inl e, s))
      | Inr birth \<Rightarrow>
     (case parse_weight env data of
        Inl e \<Rightarrow>
          (if e = ValueError
           then (Inr \<lparr>body = Message ''Invalid date or number format provided.'',
                      status_code = 400\<rparr>, s)
           else (Inl e, s))
      | Inr wt \<Rightarrow>
          (Inr \<lparr>body = MessageId ''Patient record created successfully.''
                         (length (patients s)),
                status_code = 201\<rparr>,
           s\<lparr>patients := patients s @ [new_patient env data nid birth wt]\<rparr>)))))"


subsection \<open>schedule\_appointment\<close>

definition new_appointment ::
  "app_env \<Rightarrow> json \<Rightarrow> patient_details \<Rightarrow> string \<Rightarrow> appointment" where
  "new_appointment env data patient_details appointment_datetime =
     \<lparr>appt_patientId = details_patientId patient_details,
      appt_patientName = details_patientName patient_details,
      appt_datetime = appointment_datetime,
      appt_type = item data ''type'',
      appt_status = ''Scheduled'',
      appt_created_at = now env\<rparr>"

text \<open>
  The patient lookup is outside any try block; the bare \<open>except\<close> around the date
  parser catches every exception.
\<close>

definition schedule_appointment ::
  "(string \<Rightarrow> string) \<Rightarrow> app_env \<Rightarrow> app_state \<Rightarrow> json \<Rightarrow> (py_exc + response) \<times> app_state" where
  "schedule_appointment upper env s data =
     (case all_present [''patientId'', ''datetime'', ''type''] data of
        Inl e \<Rightarrow> (Inl e, s)
      | Inr False \<Rightarrow>
          (Inr \<lparr>body = Message
                  ''Missing required appointment fields (patientId, datetime, type).'',
                status_code = 400\<rparr>, s)
      | Inr True \<Rightarrow>
     (case get_patient_details upper s (item data ''patientId'') of
        Inl e \<Rightarrow> (Inl e, s)
      | Inr None \<Rightarrow>
          (Inr \<lparr>body = Message (''Patient ID '' @ text_of (item data ''patientId'') @
                                '' not found.''),
                status_code = 404\<rparr>, s)
      | Inr (Some patient_details) \<Rightarrow>
     (case parse_date env (item data ''datetime'') of
        Inl e \<Rightarrow>
          (Inr \<lparr>body = Message ''Invalid datetime format.'', status_code = 400\<rparr>, s)
      | Inr appointment_datetime \<Rightarrow>
          (Inr \<lparr>body = MessageId ''Appointment scheduled successfully.''
                         (length (appointments s)),
                status_code = 201\<rparr>,
           s\<lparr>appointments := appointments s @
                [new_appointment env data patient_details appointment_datetime]\<rparr>))))"

subsection \<open>upload\_image\<close>

text \<open>
  The multipart request: \<open>upload_files\<close> maps a field name to the client's file name and
  the bytes sent, \<open>form\<close> holds the text fields; every form value is a text.
\<close>

record upload_request =
  upload_files :: "string \<rightharpoonup> string \<times> bytes"
  form :: "string \<rightharpoonup> string"

definition file_save :: "app_env \<Rightarrow> app_state \<Rightarrow> string \<Rightarrow> bytes \<Rightarrow> py_exc + app_state" where
  "file_save env s path content =
     (case save_error env of
        Some e \<Rightarrow> Inl e
      | None \<Rightarrow> Inr (s\<lparr>files := (files s)(path \<mapsto> content)\<rparr>))"

definition os_path_getsize :: "app_state \<Rightarrow> string \<Rightarrow> py_exc + nat" where
  "os_path_getsize s path =
     (case files s path of Some content \<Rightarrow> Inr (length content) | None \<Rightarrow> Inl OSError)"

definition insert_image :: "app_state \<Rightarrow> image_record \<Rightarrow> nat \<times> app_state" where
  "insert_image s r = (length (images s), s\<lparr>images := images s @ [r]\<rparr>)"

text \<open>
  The \<open>update_one\<close> call of the handler: the document with the given \<open>_id\<close> gets the four
  fields of the \<open>$set\<close>.
\<close>

definition mock_process :: "app_state \<Rightarrow> nat \<Rightarrow> app_state" where
  "mock_process s inserted_id =
     (if inserted_id < length (images s) then
        s\<lparr>images := (images s)[inserted_id :=
             (images s ! inserted_id)
               \<lparr>image_status := ''Processed'',
                ai_result := \<lparr>prediction = ''Low-Risk ROP Stage 1'', probability = 95 / 100,
                              status = ''Pending Review''\<rparr>\<rparr>]\<rparr>
      else s)"

text \<open>The dict \<open>new_image_record\<close>, given the generated name, the path and the size read back.\<close>

definition new_image_record ::
  "app_env \<Rightarrow> string \<Rightarrow> patient_details \<Rightarrow> string \<Rightarrow> string \<Rightarrow> nat \<Rightarrow> image_record" where
  "new_image_record env patient_id patient_details fname fpath size_bytes =
     \<lparr>image_patientId = patient_id,
      image_patientName = details_patientName patient_details,
      filename = fname,
      filepath = fpath,
      upload_time = now env,
      file_size = format_mb env size_bytes,
      image_status = ''Uploaded'',
      ai_result = \<lparr>prediction = ''Unknown'', probability = 0, status = ''Processing''\<rparr>\<rparr>"

text \<open>The generated file name and the path it is saved under.\<close>

definition generated_name :: "app_env \<Rightarrow> string \<Rightarrow> string \<Rightarrow> string" where
  "generated_name env patient_id file_filename =
     patient_id @ ''_'' @ uuid_hex env @ snd (os_path_splitext file_filename)"

definition upload_image ::
  "(string \<Rightarrow> string) \<Rightarrow> app_env \<Rightarrow> app_state \<Rightarrow> upload_request \<Rightarrow>
   (py_exc + response) \<times> app_state" where
  "upload_image upper env s req =
     (case upload_files req ''file'' of
        None \<Rightarrow>
          (Inr \<lparr>body = Message ''No file part in the request.'', status_code = 400\<rparr>, s)
      | Some (file_filename, content) \<Rightarrow>
     (case form req ''patientId'' of
        None \<Rightarrow>
          (Inr \<lparr>body = Message ''Patient ID is required in the form data.'',
                status_code = 400\<rparr>, s)
      | Some pid \<Rightarrow>
     (let patient_id = upper pid in
      if file_filename = [] then
        (Inr \<lparr>body = Message ''No selected file.'', status_code = 400\<rparr>, s)
      else
     (case get_patient_details upper s (JString patient_id) of
        Inl e \<Rightarrow> (Inl e, s)
      | Inr None \<Rightarrow>
          (Inr \<lparr>body = Message (''Patient ID '' @ patient_id @ '' not found.''),
                status_code = 404\<rparr>, s)
      | Inr (Some patient_details) \<Rightarrow>
     (let fname = generated_name env patient_id file_filename;
          fpath = os_path_join UPLOAD_FOLDER fname
      in
     (case file_save env s fpath content of
        Inl e \<Rightarrow> (Inl e, s)
      | Inr s1 \<Rightarrow>
     (case os_path_getsize s1 fpath of
        Inl e \<Rightarrow> (Inl e, s1)
      | Inr size_bytes \<Rightarrow>
     (case insert_image s1
             (new_image_record env patient_id patient_details fname fpath size_bytes) of
        (inserted_id, s2) \<Rightarrow>
          (Inr \<lparr>body = UploadAck ''Image uploaded successfully and sent for AI processing.''
                         inserted_id ''Processing'',
                status_code = 201\<rparr>,
           mock_process s2 inserted_id)))))))))"

subsection \<open>get\_images\_for\_review\<close>

definition review_tags :: "string list" where
  "review_tags = [''High-Risk ROP Stage 3'', ''Urgent Referral'', ''Severe ROP'']"

definition review_query :: "image_record \<Rightarrow> bool" where
  "review_query r \<longleftrightarrow>
     status (ai_result r) = ''Pending Review'' \<and>
     prediction (ai_result r) \<in> set review_tags \<and>
     image_status r \<noteq> ''Reviewed''"

text \<open>
  The response lists stored documents with their \<open>_id\<close>, or the single placeholder
  document \<open>mock_review_1\<close> (stamped with the current time) when no document matches.
\<close>

datatype review_doc = MockReview string | StoredImage nat image_record

definition get_images_for_review :: "app_env \<Rightarrow> app_state \<Rightarrow> review_doc list" where
  "get_images_for_review env s =
     (let matching = filter (\<lambda>(i, r). review_query r) (enumerate 0 (images s))
      in if length matching = 0 then [MockReview (now env)]
         else map (\<lambda>(i, r). StoredImage i r) (rev (sort_key (\<lambda>(i, r). upload_time r) matching)))"

subsection \<open>Runs of the service\<close>

text \<open>A run is a sequence of calls of the three writing handlers, from the empty store.\<close>

datatype api_call =
    AddPatient app_env json
  | ScheduleAppointment app_env json
  | UploadImage app_env upload_request

fun handle :: "(string \<Rightarrow> string) \<Rightarrow> app_state \<Rightarrow> api_call \<Rightarrow> app_state" where
  "handle upper s (AddPatient env data) = snd (add_patient upper env s data)"
| "handle upper s (ScheduleAppointment env data) = snd (schedule_appointment upper env s data)"
| "handle upper s (UploadImage env req) = snd (upload_image upper env s req)"

definition empty_state :: app_state where
  "empty_state = \<lparr>patients = [], appointments = [], images = [], files = Map.empty\<rparr>"

definition run :: "(string \<Rightarrow> string) \<Rightarrow> api_call list \<Rightarrow> app_state" where
  "run upper calls = foldl (handle upper) empty_state calls"

subsection \<open>Predicates of the statements\<close>

text \<open>
  A patient request is valid when it passes every check of \<open>add_patient\<close> other than the
  uniqueness of the identifier: the four required fields are present and truthy, the
  identifier is a text, the birth date parses, and the weight, when given, converts to a
  float.
\<close>

definition is_text :: "json \<Rightarrow> bool" where
  "is_text v = (case v of JString t \<Rightarrow> True | _ \<Rightarrow> False)"



section \<open>Concrete inputs\<close>

text \<open>
  A model whose score for class \<open>k\<close> is the \<open>k\<close>-th byte of the image divided by 30, behind
  a decoder that rejects the empty byte string; and the same service with a model file
  that cannot be read at the first attempt.
\<close>

definition ex_ai_env :: "(unit, bytes) ai_env" where
  "ex_ai_env =
     \<lparr>tf_load_model = (\<lambda>n. Inr ()),
      pil_pipeline = (\<lambda>b. if b = [] then Inl OtherException else Inr b),
      predict = (\<lambda>m t. Inr [map (\<lambda>w. real (unat w) / 30) t])\<rparr>"

definition ex_ai_env_no_model :: "(unit, bytes) ai_env" where
  "ex_ai_env_no_model =
     ex_ai_env\<lparr>tf_load_model := (\<lambda>n. if n = 0 then Inl OSError else Inr ())\<rparr>"

text \<open>
  A request environment: the date parser accepts the ten-character dates, the clock and
  the random token are fixed, the disk accepts every write.
\<close>

definition ex_app_env :: app_env where
  "ex_app_env =
     \<lparr>parse_date =
        (\<lambda>v. case v of
               JString t \<Rightarrow> if length t = 10 then Inr (t @ ''T00:00:00'') else Inl ValueError
             | _ \<Rightarrow> Inl TypeError),
      to_float =
        (\<lambda>v. case v of
               JNumber x \<Rightarrow> Inr x
             | JString t \<Rightarrow> if t = ''1.5'' then Inr (3 / 2) else Inl ValueError
             | _ \<Rightarrow> Inl TypeError),
      now = ''2024-05-01T10:00:00'',
      uuid_hex = ''0f3a9c'',
      save_error = None,
      format_mb = (\<lambda>n. ''0.00 MB'')\<rparr>"

text \<open>
  Patient requests: a complete one, a repeat of its identifier with an unreadable birth
  date, a repeat with no other field, and a complete one whose identifier is a slash.
\<close>

definition ex_patient :: json where
  "ex_patient =
     JObject [''name'' \<mapsto> JString ''Baby Doe'', ''neonate_id'' \<mapsto> JString ''n001'',
              ''birth_date'' \<mapsto> JString ''2024-04-11'', ''parent_name'' \<mapsto> JString ''John Doe'']"

definition ex_patient_stored :: patient where
  "ex_patient_stored =
     \<lparr>neonate_id = ''N001'', name = JString ''Baby Doe'', birth_date = ''2024-04-11T00:00:00'',
      gestational_age = JNull, weight = None, parent_name = JString ''John Doe'',
      parent_phone = JNull, parent_email = JNull, patient_status = ''Active'',
      created_at = ''2024-05-01T10:00:00''\<rparr>"



definition ex_patient_slash :: json where
  "ex_patient_slash =
     JObject [''name'' \<mapsto> JString ''Baby Roe'', ''neonate_id'' \<mapsto> JString ''/'',
              ''birth_date'' \<mapsto> JString ''2024-04-12'', ''parent_name'' \<mapsto> JString ''Jane Roe'']"



text \<open>Uploads of a four-byte file for the two patients.\<close>

definition ex_upload :: upload_request where
  "ex_upload =
     \<lparr>upload_files = [''file'' \<mapsto> (''scan.tar.png'', [137, 80, 78, 71])],
      form = [''patientId'' \<mapsto> ''n001'']\<rparr>"

definition ex_upload_slash :: upload_request where
  "ex_upload_slash =
     \<lparr>upload_files = [''file'' \<mapsto> (''scan.png'', [137, 80, 78, 71])],
      form = [''patientId'' \<mapsto> ''/'']\<rparr>"

section \<open>Properties of ai\_service.py\<close>

subsection \<open>The library functions\<close>

lemma argmax_scan_first_max:
  "best_i < length pre \<Longrightarrow> pre ! best_i = best \<Longrightarrow> \<forall>j<length pre. pre ! j \<le> best \<Longrightarrow>
   \<forall>j<best_i. pre ! j < best \<Longrightarrow>
   argmax_scan xs (length pre) best best_i < length (pre @ xs) \<and>
   (\<forall>j<length (pre @ xs). (pre @ xs) ! j \<le> (pre @ xs) ! argmax_scan xs (length pre) best best_i) \<and>
   (\<forall>j<argmax_scan xs (length pre) best best_i.
       (pre @ xs) ! j < (pre @ xs) ! argmax_scan xs (length pre) best best_i)"
proof (induction xs arbitrary: pre best best_i)
  case Nil
  then show ?case by simp
next
  case (Cons x xs)
  show ?case
  proof (cases "best < x")
    case True
    have a: "length pre < length (pre @ [x])" by simp
    have b: "(pre @ [x]) ! length pre = x" by simp
    have c: "\<forall>j<length (pre @ [x]). (pre @ [x]) ! j \<le> x"
      using Cons.prems(3) True by (auto simp: nth_append less_Suc_eq)
    have d: "\<forall>j<length pre. (pre @ [x]) ! j < x"
      using Cons.prems(3) True by (auto simp: nth_append)
    from Cons.IH [OF a b c d] True show ?thesis by simp
  next
    case False
    have a: "best_i < length (pre @ [x])" using Cons.prems(1) by simp
    have b: "(pre @ [x]) ! best_i = best" using Cons.prems(1,2) by (simp add: nth_append)
    have c: "\<forall>j<length (pre @ [x]). (pre @ [x]) ! j \<le> best"
      using Cons.prems(3) False by (auto simp: nth_append less_Suc_eq)
    have d: "\<forall>j<best_i. (pre @ [x]) ! j < best"
      using Cons.prems(1,4) by (auto simp: nth_append)
    from Cons.IH [OF a b c d] False show ?thesis by simp
  qed
qed

lemma np_argmax_row_first_max:
  assumes "np_argmax_row row = Inr i"
  shows "i < length row \<and> (\<forall>j<length row. row ! j \<le> row ! i) \<and> (\<forall>j<i. row ! j < row ! i)"
proof (cases row)
  case Nil
  with assms show ?thesis by simp
next
  case (Cons x xs)
  with assms have i: "i = argmax_scan xs (length [x]) x 0" by simp
  have "argmax_scan xs (length [x]) x 0 < length ([x] @ xs) \<and>
   (\<forall>j<length ([x] @ xs). ([x] @ xs) ! j \<le> ([x] @ xs) ! argmax_scan xs (length [x]) x 0) \<and>
   (\<forall>j<argmax_scan xs (length [x]) x 0.
       ([x] @ xs) ! j < ([x] @ xs) ! argmax_scan xs (length [x]) x 0)"
    by (rule argmax_scan_first_max) simp_all
  with i Cons show ?thesis by simp
qed

lemma np_argmax_row_unique:
  assumes "np_argmax_row row = Inr k"
    and "i < length row" and "\<forall>j<length row. row ! j \<le> row ! i" and "\<forall>j<i. row ! j < row ! i"
  shows "k = i"
proof -
  from np_argmax_row_first_max [OF assms(1)] have
    k: "k < length row" "\<forall>j<length row. row ! j \<le> row ! k" "\<forall>j<k. row ! j < row ! k"
    by blast+
  from k(2) assms(2) have a: "row ! i \<le> row ! k" by blast
  from assms(3) k(1) have b: "row ! k \<le> row ! i" by blast
  show ?thesis
  proof (rule ccontr)
    assume "k \<noteq> i"
    then consider "k < i" | "i < k" by linarith
    then show False
    proof cases
      case 1
      with assms(4) have "row ! k < row ! i" by blast
      with a show False by simp
    next
      case 2
      with k(3) have "row ! i < row ! k" by blast
      with b show False by simp
    qed
  qed
qed

lemma np_argmax_row_total: "row \<noteq> [] \<Longrightarrow> \<exists>k. np_argmax_row row = Inr k"
  by (cases row) simp_all

lemma np_argmax_axis1_total:
  "\<forall>r\<in>set rows. r \<noteq> [] \<Longrightarrow> \<exists>ks. np_argmax_axis1 rows = Inr ks"
proof (induction rows)
  case Nil
  then show ?case by simp
next
  case (Cons r rows)
  then obtain k ks where "np_argmax_row r = Inr k" "np_argmax_axis1 rows = Inr ks"
    using np_argmax_row_total [of r] by auto
  then show ?case by simp
qed

lemma np_argmax_axis1_head:
  assumes "np_argmax_row row = Inr k" and "\<forall>r\<in>set rest. r \<noteq> []"
  shows "\<exists>ks. np_argmax_axis1 (row # rest) = Inr (k # ks)"
proof -
  from np_argmax_axis1_total [OF assms(2)] obtain ks where "np_argmax_axis1 rest = Inr ks"
    by blast
  with assms(1) show ?thesis by simp
qed

lemma np_max_is_Max:
  assumes "np_max predictions = Inr p"
  shows "concat predictions \<noteq> [] \<and> p = Max (set (concat predictions))"
proof (cases "concat predictions")
  case Nil
  with assms show ?thesis by (simp add: np_max_def)
next
  case (Cons x xs)
  then have "np_max predictions = Inr (Max (set (x # xs)))"
    by (simp only: np_max_def Max.set_eq_fold list.case)
  with Cons assms show ?thesis by simp
qed

lemma np_max_value:
  "row \<noteq> [] \<Longrightarrow> np_max (row # rest) = Inr (Max (set (concat (row # rest))))"
proof -
  assume "row \<noteq> []"
  then obtain a as where c: "concat (row # rest) = a # as"
    by (cases row) auto
  then have "np_max (row # rest) = Inr (Max (set (a # as)))"
    by (simp only: np_max_def Max.set_eq_fold list.case)
  with c show ?thesis by simp
qed

lemma first_max_is_Max:
  assumes "i < length row" and "\<forall>j<length row. row ! j \<le> row ! i"
  shows "Max (set row) = row ! i"
proof (rule Max_eqI)
  show "finite (set row)" by simp
  show "\<And>y. y \<in> set row \<Longrightarrow> y \<le> row ! i" using assms(2) by (auto simp: in_set_conv_nth)
  show "row ! i \<in> set row" using assms(1) by simp
qed

lemma round_half_even_near: "\<bar>of_int (round_half_even y) - y\<bar> \<le> 1 / 2"
  unfolding round_half_even_def Let_def by (auto; linarith)

lemma round_half_even_lower: "of_int n \<le> y \<Longrightarrow> n \<le> round_half_even y"
  unfolding round_half_even_def Let_def by (auto simp: le_floor_iff; linarith)

lemma round_half_even_upper: "y \<le> of_int n \<Longrightarrow> round_half_even y \<le> n"
  unfolding round_half_even_def Let_def
  by (auto; linarith)

lemma py_round_near: "\<bar>py_round x n - x\<bar> \<le> 1 / (2 * 10 ^ n)"
proof -
  have near: "\<bar>of_int (round_half_even (x * 10 ^ n)) - x * 10 ^ n\<bar> \<le> 1 / 2"
    by (rule round_half_even_near)
  have "py_round x n - x = (of_int (round_half_even (x * 10 ^ n)) - x * 10 ^ n) / 10 ^ n"
    by (simp add: py_round_def diff_divide_distrib)
  then have "\<bar>py_round x n - x\<bar> =
      \<bar>of_int (round_half_even (x * 10 ^ n)) - x * 10 ^ n\<bar> / 10 ^ n"
    by (simp only: abs_divide) simp
  also have "\<dots> \<le> (1 / 2) / 10 ^ n"
    using near by (intro divide_right_mono) simp_all
  finally show ?thesis by simp
qed

lemma py_round_unit:
  assumes "0 \<le> x" "x \<le> 1"
  shows "0 \<le> py_round x n \<and> py_round x n \<le> 1"
proof -
  have "of_int 0 \<le> x * 10 ^ n" using assms by simp
  then have lo: "0 \<le> round_half_even (x * 10 ^ n)" by (rule round_half_even_lower)
  have "x * 10 ^ n \<le> of_int (10 ^ n)" using assms by (simp add: mult_left_le_one_le)
  then have hi: "round_half_even (x * 10 ^ n) \<le> 10 ^ n" by (rule round_half_even_upper)
  from hi have "(of_int (round_half_even (x * 10 ^ n)) :: real) \<le> of_int (10 ^ n)"
    by (simp only: of_int_le_iff)
  with lo show ?thesis by (simp add: py_round_def divide_le_eq)
qed

subsection \<open>The model cache\<close>

lemma load_model_settled:
  "model s \<noteq> PyNone \<Longrightarrow> load_model env s = (model s, s)"
  by (cases "model s") (simp_all add: load_model_def)

lemma run_inference_failed:
  "model s = PyFalse \<Longrightarrow> run_inference env s b = (Inr model_error, s)"
  by (simp add: run_inference_def load_model_settled)

lemma run_inference_keeps_state:
  "model s \<noteq> PyNone \<Longrightarrow> snd (run_inference env s b) = s"
  by (cases "model s")
     (auto simp: run_inference_def load_model_settled split: sum.splits option.splits)

lemma run_inferences_failed:
  "model s = PyFalse \<Longrightarrow>
   run_inferences env s imgs = (replicate (length imgs) (Inr model_error), s)"
  by (induction imgs) (simp_all add: run_inference_failed)

lemma run_inferences_keeps_state:
  "model s \<noteq> PyNone \<Longrightarrow> snd (run_inferences env s imgs) = s"
proof (induction imgs)
  case Nil
  then show ?case by simp
next
  case (Cons b bs)
  obtain r s1 where r: "run_inference env s b = (r, s1)" by (cases "run_inference env s b")
  with Cons.prems have "s1 = s" using run_inference_keeps_state [of s env b] by simp
  with Cons r show ?case by (auto split: prod.splits)
qed

lemma import_settled:
  "model (import_ai_service env) \<noteq> PyNone \<and> load_calls (import_ai_service env) = 1"
  by (simp add: import_ai_service_def load_model_def split: sum.splits)

lemma import_failed:
  "tf_load_model env 0 = Inl e \<Longrightarrow>
   import_ai_service env = \<lparr>model = PyFalse, load_calls = 1\<rparr>"
  by (simp add: import_ai_service_def load_model_def)

text \<open>
  Claim C3. If the first load attempt (made when the module is imported) fails, every
  later call of \<open>run_inference\<close> returns the Model Error dict and the loader is not
  called again, whatever a second attempt would have given; and in every process the
  loader is called exactly once in all, so at most one load ever succeeds.
\<close>

theorem failed_load_is_cached:
  "(\<forall>e. tf_load_model env 0 = Inl e \<longrightarrow>
      run_inferences env (import_ai_service env) imgs =
        (replicate (length imgs)
           (Inr \<lparr>prediction = ''Model Error'', probability = 0, status = ''failed''\<rparr>),
         \<lparr>model = PyFalse, load_calls = 1\<rparr>))
   \<and> load_calls (snd (run_inferences env (import_ai_service env) imgs)) = 1"
proof (intro conjI allI impI)
  fix e assume "tf_load_model env 0 = Inl e"
  then have s: "import_ai_service env = \<lparr>model = PyFalse, load_calls = 1\<rparr>"
    by (rule import_failed)
  show "run_inferences env (import_ai_service env) imgs =
        (replicate (length imgs)
           (Inr \<lparr>prediction = ''Model Error'', probability = 0, status = ''failed''\<rparr>),
         \<lparr>model = PyFalse, load_calls = 1\<rparr>)"
    unfolding s using run_inferences_failed [of "\<lparr>model = PyFalse, load_calls = 1\<rparr>" env imgs]
    by (simp add: model_error_def)
next
  show "load_calls (snd (run_inferences env (import_ai_service env) imgs)) = 1"
    using run_inferences_keeps_state [of "import_ai_service env" env imgs] import_settled [of env]
    by simp
qed

theorem failed_load_is_cached_witness:
  "tf_load_model ex_ai_env_no_model 0 = Inl OSError \<and>
   run_inferences ex_ai_env_no_model (import_ai_service ex_ai_env_no_model) [[1, 2], [3]] =
     ([Inr \<lparr>prediction = ''Model Error'', probability = 0, status = ''failed''\<rparr>,
       Inr \<lparr>prediction = ''Model Error'', probability = 0, status = ''failed''\<rparr>],
      \<lparr>model = PyFalse, load_calls = 1\<rparr>)"
  using failed_load_is_cached [of ex_ai_env_no_model "[[1, 2], [3]]"]
  by (simp add: ex_ai_env_no_model_def ex_ai_env_def)

subsection \<open>The paths through run\_inference\<close>

lemma predict_block_result:
  assumes "predict_block env m x = Inr r"
  shows "\<exists>row rest i. predict env m x = Inr (row # rest) \<and> np_argmax_row row = Inr i \<and>
           i < length class_labels \<and>
           r = \<lparr>prediction = class_labels ! i,
                probability = py_round (Max (set (concat (row # rest)))) 4,
                status = ''processed''\<rparr>"
proof -
  from assms obtain predictions where p: "predict env m x = Inr predictions"
    by (auto simp: predict_block_def split: sum.splits)
  from assms p obtain indices where a: "np_argmax_axis1 predictions = Inr indices"
    by (auto simp: predict_block_def split: sum.splits)
  from assms p a obtain i where i: "py_getitem indices 0 = Inr i"
    by (auto simp: predict_block_def split: sum.splits)
  from assms p a i obtain q where q: "np_max predictions = Inr q"
    by (auto simp: predict_block_def split: sum.splits)
  from assms p a i q obtain l where l: "py_getitem class_labels i = Inr l"
    by (auto simp: predict_block_def split: sum.splits)
  from assms p a i q l have r: "r = \<lparr>prediction = l, probability = py_round q 4,
      status = ''processed''\<rparr>"
    by (simp add: predict_block_def)
  from i obtain rest_is where ind: "indices = i # rest_is"
    by (cases indices) (auto simp: py_getitem_def)
  from a ind obtain row rest where rows: "predictions = row # rest" "np_argmax_row row = Inr i"
    by (cases predictions) (auto split: sum.splits)
  from l have li: "i < length class_labels" "l = class_labels ! i"
    by (auto simp: py_getitem_def split: if_splits)
  from q have "q = Max (set (concat predictions))" using np_max_is_Max by blast
  with p rows li r show ?thesis by blast
qed

lemma run_inference_never_raises: "\<exists>r. fst (run_inference env s image_bytes) = Inr r"
  by (auto simp: run_inference_def preprocess_image_def
           split: prod.splits model_var.splits sum.splits option.splits)

lemma run_inference_loaded:
  "fst (load_model env s) = Loaded m \<Longrightarrow>
   fst (run_inference env s image_bytes) =
     (case pil_pipeline env image_bytes of
        Inl e \<Rightarrow> Inr preprocessing_error
      | Inr x \<Rightarrow> (case predict_block env m x of
                    Inr r \<Rightarrow> Inr r | Inl e \<Rightarrow> Inr inference_exception))"
  by (cases "load_model env s")
     (auto simp: run_inference_def preprocess_image_def split: sum.splits)

lemma run_inference_not_loaded:
  "\<forall>m. fst (load_model env s) \<noteq> Loaded m \<Longrightarrow>
   fst (run_inference env s image_bytes) = Inr model_error"
  by (cases "load_model env s")
     (auto simp: run_inference_def split: model_var.splits)

lemma run_inference_processed:
  assumes "fst (run_inference env s image_bytes) = Inr r"
    and "status r = ''processed''"
  shows "\<exists>m x. fst (load_model env s) = Loaded m \<and> pil_pipeline env image_bytes = Inr x \<and>
           predict_block env m x = Inr r"
proof (cases "fst (load_model env s)")
  case PyNone
  then have "fst (run_inference env s image_bytes) = Inr model_error"
    by (intro run_inference_not_loaded) simp
  with assms show ?thesis by (auto simp: model_error_def)
next
  case PyFalse
  then have "fst (run_inference env s image_bytes) = Inr model_error"
    by (intro run_inference_not_loaded) simp
  with assms show ?thesis by (auto simp: model_error_def)
next
  case (Loaded m)
  note run = run_inference_loaded [OF Loaded, of image_bytes]
  show ?thesis
  proof (cases "pil_pipeline env image_bytes")
    case (Inl e)
    with assms run show ?thesis by (auto simp: preprocessing_error_def)
  next
    case (Inr x)
    show ?thesis
    proof (cases "predict_block env m x")
      case (Inl e)
      with assms run Inr show ?thesis by (auto simp: inference_exception_def)
    next
      case blk: (Inr r')
      with assms run Inr have "r' = r" by simp
      with blk Inr Loaded show ?thesis by blast
    qed
  qed
qed

lemma processed_result_source:
  assumes "fst (run_inference env s image_bytes) = Inr r"
    and "status r = ''processed''"
  shows "\<exists>m x row rest i.
           fst (load_model env s) = Loaded m \<and> pil_pipeline env image_bytes = Inr x \<and>
           predict env m x = Inr (row # rest) \<and>
           i < length row \<and> (\<forall>j<length row. row ! j \<le> row ! i) \<and> (\<forall>j<i. row ! j < row ! i) \<and>
           i < 4 \<and>
           r = \<lparr>prediction = class_labels ! i,
                probability = py_round (Max (set (concat (row # rest)))) 4,
                status = ''processed''\<rparr>"
proof -
  from run_inference_processed [OF assms] obtain m x where
    l: "fst (load_model env s) = Loaded m" and d: "pil_pipeline env image_bytes = Inr x" and
    blk: "predict_block env m x = Inr r"
    by (elim exE conjE) (rule that; assumption)
  from predict_block_result [OF blk] obtain row rest i where
    p: "predict env m x = Inr (row # rest)" and a: "np_argmax_row row = Inr i" and
    lab: "i < length class_labels" and
    r: "r = \<lparr>prediction = class_labels ! i,
             probability = py_round (Max (set (concat (row # rest)))) 4,
             status = ''processed''\<rparr>"
    by (elim exE conjE) (rule that; assumption)
  from np_argmax_row_first_max [OF a] have
    f: "i < length row" "\<forall>j<length row. row ! j \<le> row ! i" "\<forall>j<i. row ! j < row ! i"
    by blast+
  from lab have "i < 4" by (simp add: class_labels_def)
  with l d p f r show ?thesis by blast
qed

lemma ex_load_ok: "fst (load_model ex_ai_env (import_ai_service ex_ai_env)) = Loaded ()"
  by (simp add: ex_ai_env_def import_ai_service_def load_model_def)

lemma ex_decode_ok: "b \<noteq> [] \<Longrightarrow> pil_pipeline ex_ai_env b = Inr b"
  by (simp add: ex_ai_env_def)

lemma ex_predict: "predict ex_ai_env m t = Inr [map (\<lambda>w. real (unat w) / 30) t]"
  by (simp add: ex_ai_env_def)

text \<open>
  Claim C2, as amended. \<open>run_inference\<close> tests the model before it touches the image. For
  image bytes that fail to decode it never raises: it returns the Preprocessing Error dict
  when the model is loaded, and the Model Error dict when the model is unavailable.
\<close>

theorem undecodable_image_result:
  assumes "pil_pipeline env image_bytes = Inl e"
  shows "fst (run_inference env s image_bytes) =
           (case fst (load_model env s) of
              Loaded m \<Rightarrow>
                Inr \<lparr>prediction = ''Preprocessing Error'', probability = 0, status = ''failed''\<rparr>
            | _ \<Rightarrow> Inr \<lparr>prediction = ''Model Error'', probability = 0, status = ''failed''\<rparr>)"
proof (cases "fst (load_model env s)")
  case (Loaded m)
  with assms show ?thesis
    using run_inference_loaded [of env s m image_bytes] by (simp add: preprocessing_error_def)
next
  case PyNone
  then show ?thesis
    using run_inference_not_loaded [of env s image_bytes] by (simp add: model_error_def)
next
  case PyFalse
  then show ?thesis
    using run_inference_not_loaded [of env s image_bytes] by (simp add: model_error_def)
qed

theorem undecodable_image_result_witness:
  "pil_pipeline ex_ai_env [] = Inl OtherException \<and>
   fst (run_inference ex_ai_env (import_ai_service ex_ai_env) []) =
     Inr \<lparr>prediction = ''Preprocessing Error'', probability = 0, status = ''failed''\<rparr>"
  using undecodable_image_result [of ex_ai_env "[]" OtherException "import_ai_service ex_ai_env"]
  by (simp add: ex_ai_env_def import_ai_service_def load_model_def)

text \<open>
  The claim as first stated put no condition on the model: with a model that failed to
  load, undecodable bytes give Model Error, not Preprocessing Error.
\<close>

theorem undecodable_image_counterexample:
  "pil_pipeline ex_ai_env_no_model [] = Inl OtherException \<and>
   fst (run_inference ex_ai_env_no_model (import_ai_service ex_ai_env_no_model) []) \<noteq>
     Inr \<lparr>prediction = ''Preprocessing Error'', probability = 0, status = ''failed''\<rparr>"
  by (simp add: ex_ai_env_no_model_def ex_ai_env_def import_ai_service_def load_model_def
        run_inference_def model_error_def)

text \<open>
  Claim C4. Let the model be loaded, preprocessing succeed, and the model return an array
  of scores whose first row has its largest score first at position \<open>i\<close> (no score of
  the row is larger, every earlier one is smaller), with \<open>i\<close> below four. Then
  \<open>run_inference\<close> returns the dict with status processed whose label is the \<open>i\<close>-th of
  the four labels in their fixed order and whose probability is the largest score of the
  array rounded to four decimals: a multiple of 0.0001 at distance at most 0.00005 from
  it. For a batch of one image the largest score of the array is \<open>row ! i\<close>.
\<close>

theorem successful_inference_result:
  assumes "fst (load_model env s) = Loaded m"
    and "pil_pipeline env image_bytes = Inr x"
    and "predict env m x = Inr (row # rest)"
    and "\<forall>r\<in>set rest. length r = length row"
    and "i < length row"
    and "\<forall>j<length row. row ! j \<le> row ! i"
    and "\<forall>j<i. row ! j < row ! i"
    and "i < 4"
  shows "fst (run_inference env s image_bytes) =
           Inr \<lparr>prediction =
                  [''Stage 0 (Normal)'', ''Stage 1'', ''Stage 2'', ''Stage 3 (High-Risk)''] ! i,
                probability = py_round (Max (set (concat (row # rest)))) 4,
                status = ''processed''\<rparr> \<and>
         (rest = [] \<longrightarrow> Max (set (concat (row # rest))) = row ! i) \<and>
         (\<exists>k::int. py_round (Max (set (concat (row # rest)))) 4 = of_int k / 10000) \<and>
         \<bar>py_round (Max (set (concat (row # rest)))) 4 - Max (set (concat (row # rest)))\<bar>
           \<le> 1 / 20000"
proof -
  from assms(5) have ne: "row \<noteq> []" by auto
  with assms(4) have rest: "\<forall>r\<in>set rest. r \<noteq> []" by auto
  from np_argmax_row_total [OF ne] obtain k where k: "np_argmax_row row = Inr k" by blast
  from np_argmax_row_unique [OF k assms(5,6,7)] k have a: "np_argmax_row row = Inr i" by simp
  from np_argmax_axis1_head [OF a rest] obtain ks where
    ax: "np_argmax_axis1 (row # rest) = Inr (i # ks)" by blast
  have mx: "np_max (row # rest) = Inr (Max (set (concat (row # rest))))"
    by (rule np_max_value [OF ne])
  from assms(8) have lab: "py_getitem class_labels i =
      Inr ([''Stage 0 (Normal)'', ''Stage 1'', ''Stage 2'', ''Stage 3 (High-Risk)''] ! i)"
    by (simp add: py_getitem_def class_labels_def)
  have g0: "py_getitem (i # ks) 0 = Inr i" by (simp add: py_getitem_def)
  have blk: "predict_block env m x =
      Inr \<lparr>prediction =
             [''Stage 0 (Normal)'', ''Stage 1'', ''Stage 2'', ''Stage 3 (High-Risk)''] ! i,
           probability = py_round (Max (set (concat (row # rest)))) 4,
           status = ''processed''\<rparr>"
    by (simp only: predict_block_def assms(3) sum.case ax g0 mx lab)
  have res: "fst (run_inference env s image_bytes) =
           Inr \<lparr>prediction =
                  [''Stage 0 (Normal)'', ''Stage 1'', ''Stage 2'', ''Stage 3 (High-Risk)''] ! i,
                probability = py_round (Max (set (concat (row # rest)))) 4,
                status = ''processed''\<rparr>"
    using run_inference_loaded [OF assms(1), of image_bytes] assms(2) blk by simp
  have one: "rest = [] \<longrightarrow> Max (set (concat (row # rest))) = row ! i"
    using first_max_is_Max [OF assms(5,6)] by simp
  have grid: "\<exists>k::int. py_round (Max (set (concat (row # rest)))) 4 = of_int k / 10000"
    by (simp add: py_round_def)
  have near: "\<bar>py_round (Max (set (concat (row # rest)))) 4 - Max (set (concat (row # rest)))\<bar>
           \<le> 1 / 20000"
    using py_round_near [of "Max (set (concat (row # rest)))" 4] by simp
  from res one grid near show ?thesis by blast
qed

theorem successful_inference_result_witness:
  "predict ex_ai_env () [3, 20, 20, 1] = Inr [[1 / 10, 2 / 3, 2 / 3, 1 / 30]] \<and>
   np_argmax_row [1 / 10, 2 / 3, 2 / 3, 1 / 30] = Inr 1 \<and>
   fst (run_inference ex_ai_env (import_ai_service ex_ai_env) [3, 20, 20, 1]) =
     Inr \<lparr>prediction = ''Stage 1'', probability = 6667 / 10000, status = ''processed''\<rparr> \<and>
   predict ex_ai_env () [1, 2, 3, 21] = Inr [[1 / 30, 1 / 15, 1 / 10, 7 / 10]] \<and>
   np_argmax_row [1 / 30, 1 / 15, 1 / 10, 7 / 10] = Inr 3 \<and>
   fst (run_inference ex_ai_env (import_ai_service ex_ai_env) [1, 2, 3, 21]) =
     Inr \<lparr>prediction = ''Stage 3 (High-Risk)'', probability = 7 / 10, status = ''processed''\<rparr>"
proof -
  have p1: "predict ex_ai_env () [3, 20, 20, 1] = Inr ([1 / 10, 2 / 3, 2 / 3, 1 / 30] # [])"
    by (simp add: ex_predict)
  have a1: "np_argmax_row [1 / 10, 2 / 3, 2 / 3, 1 / 30] = Inr 1" by simp
  have d1: "pil_pipeline ex_ai_env [3, 20, 20, 1] = Inr [3, 20, 20, 1]"
    by (simp add: ex_decode_ok)
  have r1: "\<forall>r\<in>set []. length r = length [1 / 10, 2 / 3, 2 / 3, 1 / 30 :: real]" by simp
  note f1 = np_argmax_row_first_max [OF a1]
  have m1: "Max (set (concat [[1 / 10, 2 / 3, 2 / 3, 1 / 30 :: real]])) = 2 / 3" by simp
  have q1: "py_round (2 / 3) 4 = 6667 / 10000"
    by (simp add: py_round_def round_half_even_def Let_def)
  have t1: "fst (run_inference ex_ai_env (import_ai_service ex_ai_env) [3, 20, 20, 1]) =
     Inr \<lparr>prediction = ''Stage 1'', probability = 6667 / 10000, status = ''processed''\<rparr>"
    using successful_inference_result [OF ex_load_ok d1 p1 r1 f1 [THEN conjunct1]
        f1 [THEN conjunct2, THEN conjunct1] f1 [THEN conjunct2, THEN conjunct2]]
    by (simp add: m1 q1)
  have p2: "predict ex_ai_env () [1, 2, 3, 21] = Inr ([1 / 30, 1 / 15, 1 / 10, 7 / 10] # [])"
    by (simp add: ex_predict)
  have a2: "np_argmax_row [1 / 30, 1 / 15, 1 / 10, 7 / 10] = Inr 3" by simp
  have d2: "pil_pipeline ex_ai_env [1, 2, 3, 21] = Inr [1, 2, 3, 21]"
    by (simp add: ex_decode_ok)
  have r2: "\<forall>r\<in>set []. length r = length [1 / 30, 1 / 15, 1 / 10, 7 / 10 :: real]" by simp
  note f2 = np_argmax_row_first_max [OF a2]
  have m2: "Max (set (concat [[1 / 30, 1 / 15, 1 / 10, 7 / 10 :: real]])) = 7 / 10" by simp
  have q2: "py_round (7 / 10) 4 = 7 / 10"
    by (simp add: py_round_def round_half_even_def Let_def)
  have t2: "fst (run_inference ex_ai_env (import_ai_service ex_ai_env) [1, 2, 3, 21]) =
     Inr \<lparr>prediction = ''Stage 3 (High-Risk)'', probability = 7 / 10, status = ''processed''\<rparr>"
    using successful_inference_result [OF ex_load_ok d2 p2 r2 f2 [THEN conjunct1]
        f2 [THEN conjunct2, THEN conjunct1] f2 [THEN conjunct2, THEN conjunct2]]
    by (simp add: m2 q2)
  from p1 a1 t1 p2 a2 t2 show ?thesis by simp
qed

text \<open>
  Claim C5, as amended. A result with status processed always carries one of the four
  configured labels; its probability lies between 0 and 1 whenever every score that the
  model returned for this call does. The code does not clamp or normalise the scores.
\<close>

theorem processed_result_in_range:
  assumes "fst (run_inference env s image_bytes) = Inr r"
    and "status r = ''processed''"
  shows "prediction r \<in>
           {''Stage 0 (Normal)'', ''Stage 1'', ''Stage 2'', ''Stage 3 (High-Risk)''} \<and>
         (\<forall>m x predictions.
            fst (load_model env s) = Loaded m \<and> pil_pipeline env image_bytes = Inr x \<and>
            predict env m x = Inr predictions \<and>
            (\<forall>row\<in>set predictions. \<forall>p\<in>set row. 0 \<le> p \<and> p \<le> 1) \<longrightarrow>
            0 \<le> probability r \<and> probability r \<le> 1)"
proof -
  from processed_result_source [OF assms] obtain m x row rest i where
    l: "fst (load_model env s) = Loaded m" and d: "pil_pipeline env image_bytes = Inr x" and
    p: "predict env m x = Inr (row # rest)" and il: "i < length row" and i4: "i < 4" and
    r: "r = \<lparr>prediction = class_labels ! i,
             probability = py_round (Max (set (concat (row # rest)))) 4,
             status = ''processed''\<rparr>"
    by (elim exE conjE) (rule that; assumption)
  from i4 have "i = 0 \<or> i = 1 \<or> i = 2 \<or> i = 3" by linarith
  then have lab: "prediction r \<in>
      {''Stage 0 (Normal)'', ''Stage 1'', ''Stage 2'', ''Stage 3 (High-Risk)''}"
    unfolding r by (auto simp: class_labels_def)
  have rng: "0 \<le> probability r \<and> probability r \<le> 1"
    if h: "fst (load_model env s) = Loaded m' \<and> pil_pipeline env image_bytes = Inr x' \<and>
           predict env m' x' = Inr predictions \<and>
           (\<forall>row\<in>set predictions. \<forall>p\<in>set row. 0 \<le> p \<and> p \<le> 1)"
    for m' x' predictions
  proof -
    from h l d have "m' = m" "x' = x" by simp_all
    with h p have ps: "predictions = row # rest" by simp
    with h have all: "\<forall>q\<in>set (concat (row # rest)). 0 \<le> q \<and> q \<le> 1" by auto
    from il have "concat (row # rest) \<noteq> []" by auto
    then have "Max (set (concat (row # rest))) \<in> set (concat (row # rest))"
      by (intro Max_in) simp_all
    with all have "0 \<le> Max (set (concat (row # rest))) \<and> Max (set (concat (row # rest))) \<le> 1"
      by blast
    then show ?thesis unfolding r using py_round_unit by simp
  qed
  from lab rng show ?thesis by blast
qed

theorem processed_result_in_range_witness:
  "fst (run_inference ex_ai_env (import_ai_service ex_ai_env) [3, 20, 20, 1]) =
     Inr \<lparr>prediction = ''Stage 1'', probability = 6667 / 10000, status = ''processed''\<rparr> \<and>
   fst (load_model ex_ai_env (import_ai_service ex_ai_env)) = Loaded () \<and>
   pil_pipeline ex_ai_env [3, 20, 20, 1] = Inr [3, 20, 20, 1] \<and>
   predict ex_ai_env () [3, 20, 20, 1] = Inr [[1 / 10, 2 / 3, 2 / 3, 1 / 30]] \<and>
   list_all (\<lambda>p. 0 \<le> p \<and> p \<le> 1) [1 / 10, 2 / 3, 2 / 3, 1 / 30 :: real] \<and>
   0 \<le> probability \<lparr>prediction = ''Stage 1'', probability = 6667 / 10000,
         status = ''processed''\<rparr> \<and>
   probability \<lparr>prediction = ''Stage 1'', probability = 6667 / 10000,
         status = ''processed''\<rparr> \<le> 1 \<and>
   prediction \<lparr>prediction = ''Stage 1'', probability = 6667 / 10000, status = ''processed''\<rparr>
     \<in> {''Stage 0 (Normal)'', ''Stage 1'', ''Stage 2'', ''Stage 3 (High-Risk)''}"
proof -
  have a: "fst (run_inference ex_ai_env (import_ai_service ex_ai_env) [3, 20, 20, 1]) =
     Inr \<lparr>prediction = ''Stage 1'', probability = 6667 / 10000, status = ''processed''\<rparr>"
    by (simp add: ex_ai_env_def import_ai_service_def load_model_def run_inference_def
          preprocess_image_def predict_block_def np_max_def py_getitem_def class_labels_def
          py_round_def round_half_even_def Let_def)
  have b: "status \<lparr>prediction = ''Stage 1'', probability = 6667 / 10000,
      status = ''processed''\<rparr> = ''processed''" by simp
  have d: "pil_pipeline ex_ai_env [3, 20, 20, 1] = Inr [3, 20, 20, 1]"
    by (simp add: ex_decode_ok)
  have p: "predict ex_ai_env () [3, 20, 20, 1] = Inr [[1 / 10, 2 / 3, 2 / 3, 1 / 30]]"
    by (simp add: ex_predict)
  have u: "\<forall>row\<in>set [[1 / 10, 2 / 3, 2 / 3, 1 / 30 :: real]]. \<forall>p\<in>set row. 0 \<le> p \<and> p \<le> 1"
    by simp
  note t = processed_result_in_range [OF a b]
  from t have lab: "prediction \<lparr>prediction = ''Stage 1'', probability = 6667 / 10000,
      status = ''processed''\<rparr>
     \<in> {''Stage 0 (Normal)'', ''Stage 1'', ''Stage 2'', ''Stage 3 (High-Risk)''}"
    by (rule conjunct1)
  from t [THEN conjunct2, rule_format, of "()" "[3, 20, 20, 1]"
      "[[1 / 10, 2 / 3, 2 / 3, 1 / 30]]"] ex_load_ok d p u
  have rng: "0 \<le> probability \<lparr>prediction = ''Stage 1'', probability = 6667 / 10000,
         status = ''processed''\<rparr> \<and>
   probability \<lparr>prediction = ''Stage 1'', probability = 6667 / 10000,
         status = ''processed''\<rparr> \<le> 1"
    by blast
  have l: "list_all (\<lambda>p. 0 \<le> p \<and> p \<le> 1) [1 / 10, 2 / 3, 2 / 3, 1 / 30 :: real]" by simp
  from a ex_load_ok d p l rng lab show ?thesis by blast
qed

text \<open>
  The claim as first stated covered every output vector: a model whose largest score is
  1.5 gives a processed result with probability 1.5.
\<close>

theorem processed_result_counterexample:
  "fst (run_inference ex_ai_env (import_ai_service ex_ai_env) [45, 20, 20, 1]) =
     Inr \<lparr>prediction = ''Stage 0 (Normal)'', probability = 3 / 2, status = ''processed''\<rparr> \<and>
   \<not> probability \<lparr>prediction = ''Stage 0 (Normal)'', probability = 3 / 2,
        status = ''processed''\<rparr> \<le> 1"
  by (simp add: ex_ai_env_def import_ai_service_def load_model_def run_inference_def
          preprocess_image_def predict_block_def np_max_def py_getitem_def class_labels_def
          py_round_def round_half_even_def Let_def)

text \<open>
  Claim C10. When the first maximum of the output row sits at a position outside the
  four-entry label list, the \<open>IndexError\<close> of the lookup is caught:
  \<open>run_inference\<close> does not raise and returns the Inference Exception dict.
\<close>

theorem label_index_out_of_range_is_caught:
  assumes "fst (load_model env s) = Loaded m"
    and "pil_pipeline env image_bytes = Inr x"
    and "predict env m x = Inr (row # rest)"
    and "np_argmax_row row = Inr i"
    and "length class_labels \<le> i"
  shows "fst (run_inference env s image_bytes) =
           Inr \<lparr>prediction = ''Inference Exception'', probability = 0, status = ''failed''\<rparr>"
proof -
  have "\<exists>e. predict_block env m x = Inl e"
  proof (cases "predict_block env m x")
    case (Inl e)
    then show ?thesis by blast
  next
    case (Inr r)
    from predict_block_result [OF Inr] obtain row' rest' i' where
      "predict env m x = Inr (row' # rest')"
      "np_argmax_row row' = Inr i'" "i' < length class_labels"
      by (elim exE conjE) (rule that; assumption)
    with assms show ?thesis by simp
  qed
  with assms(1,2) show ?thesis
    using run_inference_loaded [of env s m image_bytes] by (auto simp: inference_exception_def)
qed

theorem label_index_out_of_range_is_caught_witness:
  "fst (load_model ex_ai_env (import_ai_service ex_ai_env)) = Loaded () \<and>
   pil_pipeline ex_ai_env [1, 2, 3, 4, 5] = Inr [1, 2, 3, 4, 5] \<and>
   predict ex_ai_env () [1, 2, 3, 4, 5] = Inr [[1 / 30, 2 / 30, 3 / 30, 4 / 30, 5 / 30]] \<and>
   np_argmax_row [1 / 30, 2 / 30, 3 / 30, 4 / 30, 5 / 30] = Inr 4 \<and>
   length class_labels \<le> 4 \<and>
   fst (run_inference ex_ai_env (import_ai_service ex_ai_env) [1, 2, 3, 4, 5]) =
     Inr \<lparr>prediction = ''Inference Exception'', probability = 0, status = ''failed''\<rparr>"
proof -
  have a: "fst (load_model ex_ai_env (import_ai_service ex_ai_env)) = Loaded ()"
    by (simp add: ex_ai_env_def import_ai_service_def load_model_def)
  have b: "pil_pipeline ex_ai_env [1, 2, 3, 4, 5] = Inr [1, 2, 3, 4, 5]"
    by (simp add: ex_ai_env_def)
  have c: "predict ex_ai_env () [1, 2, 3, 4, 5] =
      Inr ([1 / 30, 2 / 30, 3 / 30, 4 / 30, 5 / 30] # [])"
    by (simp add: ex_ai_env_def)
  have d: "np_argmax_row [1 / 30, 2 / 30, 3 / 30, 4 / 30, 5 / 30] = Inr 4" by simp
  have e: "length class_labels \<le> 4" by (simp add: class_labels_def)
  from label_index_out_of_range_is_caught [OF a b c d e] a b c d e show ?thesis by simp
qed

section \<open>Properties of app.py\<close>

subsection \<open>Identifiers and lookups\<close>




lemma find_one_Some:
  "find_one q coll = Some (i, d) \<Longrightarrow> i < length coll \<and> coll ! i = d \<and> q d"
  by (auto simp: find_one_def find_Some_iff nth_enumerate_eq)

lemma all_present_is_dict:
  "all_present (field # others) data = Inr True \<Longrightarrow> \<exists>m. data = JObject m"
  by (cases data) (auto split: sum.splits bool.splits)

lemma get_patient_details_text:
  "get_patient_details upper s (JString t) =
     Inr (case find_one (\<lambda>p. neonate_id p = upper t) (patients s) of
            Some (i, p) \<Rightarrow>
              Some \<lparr>details_patientName = name p, details_patientId = neonate_id p,
                    details_id = i\<rparr>
          | None \<Rightarrow> None)"
  by (simp add: get_patient_details_def py_upper_def split: option.splits)


lemma get_patient_details_non_text:
  "\<not> is_text v \<Longrightarrow> get_patient_details upper s v = Inl AttributeError"
  by (cases v) (simp_all add: get_patient_details_def py_upper_def is_text_def)


subsection \<open>The concrete inputs, evaluated\<close>

lemma upper_n001: "ascii_upper ''n001'' = ''N001''"
  by code_simp

lemma upper_N001: "ascii_upper ''N001'' = ''N001''"
  by code_simp


lemma upper_slash: "ascii_upper ''/'' = ''/''"
  by code_simp

lemma splitext_scan_png: "snd (os_path_splitext ''scan.png'') = ''.png''"
  by code_simp

lemma join_absolute: "os_path_join UPLOAD_FOLDER ''/_0f3a9c.png'' = ''/_0f3a9c.png''"
  by (simp add: os_path_join_def)

lemma ex_env_now: "now ex_app_env = ''2024-05-01T10:00:00''"
  by (simp add: ex_app_env_def)

lemma ex_env_token: "uuid_hex ex_app_env = ''0f3a9c''"
  by (simp add: ex_app_env_def)

lemma ex_save_ok: "save_error ex_app_env = None"
  by (simp add: ex_app_env_def)

lemma ex_env_parse_date:
  "length t = 10 \<Longrightarrow> parse_date ex_app_env (JString t) = Inr (t @ ''T00:00:00'')"
  by (simp add: ex_app_env_def)

lemma ex_patient_present:
  "all_present [''name'', ''neonate_id'', ''birth_date'', ''parent_name''] ex_patient = Inr True"
  by (simp add: ex_patient_def)

lemma ex_patient_items:
  "item ex_patient ''name'' = JString ''Baby Doe''"
  "item ex_patient ''neonate_id'' = JString ''n001''"
  "item ex_patient ''birth_date'' = JString ''2024-04-11''"
  "item ex_patient ''parent_name'' = JString ''John Doe''"
  "item ex_patient ''gestational_age'' = JNull"
  "item ex_patient ''weight'' = JNull"
  "item ex_patient ''parent_phone'' = JNull"
  "item ex_patient ''parent_email'' = JNull"
  by (simp_all add: item_def ex_patient_def)

lemma ex_run_one_patient:
  "run ascii_upper [AddPatient ex_app_env ex_patient] =
     empty_state\<lparr>patients := [ex_patient_stored]\<rparr>"
  by (simp add: run_def add_patient_def ex_patient_present ex_patient_items py_upper_def
        upper_n001 find_one_def empty_state_def ex_env_parse_date parse_weight_def
        new_patient_def ex_env_now ex_patient_stored_def del: all_present.simps)



lemma ex_upload_accepted:
  "fst (upload_image ascii_upper ex_app_env (run ascii_upper [AddPatient ex_app_env ex_patient])
      ex_upload) =
     Inr \<lparr>body = UploadAck ''Image uploaded successfully and sent for AI processing.'' 0
                   ''Processing'',
          status_code = 201\<rparr>"
  unfolding ex_run_one_patient
  by (simp add: upload_image_def ex_upload_def get_patient_details_text
        find_one_def ex_patient_stored_def upper_n001 upper_N001 Let_def file_save_def
        ex_save_ok os_path_getsize_def insert_image_def empty_state_def)

lemma ex_run_no_images: "images (run ascii_upper [AddPatient ex_app_env ex_patient]) = []"
  by (simp add: ex_run_one_patient empty_state_def)

lemma ex_patient_slash_present:
  "all_present [''name'', ''neonate_id'', ''birth_date'', ''parent_name''] ex_patient_slash =
     Inr True"
  by (simp add: ex_patient_slash_def)

lemma ex_patient_slash_items:
  "item ex_patient_slash ''neonate_id'' = JString ''/''"
  "item ex_patient_slash ''birth_date'' = JString ''2024-04-12''"
  "item ex_patient_slash ''weight'' = JNull"
  by (simp_all add: item_def ex_patient_slash_def)

lemma ex_run_slash_patient:
  "run ascii_upper [AddPatient ex_app_env ex_patient_slash] =
     empty_state\<lparr>patients :=
       [new_patient ex_app_env ex_patient_slash ''/'' ''2024-04-12T00:00:00'' None]\<rparr>"
  by (simp add: run_def add_patient_def ex_patient_slash_present ex_patient_slash_items
        py_upper_def upper_slash find_one_def empty_state_def ex_env_parse_date
        parse_weight_def del: all_present.simps)

lemma ex_slash_generated_name:
  "generated_name ex_app_env ''/'' ''scan.png'' = ''/_0f3a9c.png''"
  by (simp add: generated_name_def splitext_scan_png ex_env_token)

subsection \<open>schedule\_appointment\<close>




text \<open>
  Two paths that leave the handler with an exception, both before anything is written: a
  \<open>patientId\<close> that is truthy but not a text has no \<open>upper\<close> method, and a body that is
  not a dict cannot be tested for its fields.
\<close>

lemma schedule_appointment_non_text:
  "all_present [''patientId'', ''datetime'', ''type''] data = Inr True \<Longrightarrow>
   \<not> is_text (item data ''patientId'') \<Longrightarrow>
   schedule_appointment upper env s data = (Inl AttributeError, s)"
  by (simp add: schedule_appointment_def get_patient_details_non_text)

lemma schedule_appointment_not_a_dict:
  "all_present [''patientId'', ''datetime'', ''type''] data = Inl e \<Longrightarrow>
   schedule_appointment upper env s data = (Inl e, s)"
  by (simp add: schedule_appointment_def)

subsection \<open>add\_patient\<close>






lemma add_patient_non_text:
  "all_present [''name'', ''neonate_id'', ''birth_date'', ''parent_name''] data = Inr True \<Longrightarrow>
   \<not> is_text (item data ''neonate_id'') \<Longrightarrow>
   add_patient upper env s data = (Inl AttributeError, s)"
  by (cases "item data ''neonate_id''") (simp_all add: add_patient_def py_upper_def is_text_def)












subsection \<open>upload\_image and the review queue\<close>

lemma upload_image_accepted:
  assumes "upload_image upper env s req = (Inr resp, s')"
    and "status_code resp = 201"
  shows "\<exists>file_filename content pid patient_details.
           upload_files req ''file'' = Some (file_filename, content) \<and>
           form req ''patientId'' = Some pid \<and>
           file_filename \<noteq> [] \<and>
           get_patient_details upper s (JString (upper pid)) = Inr (Some patient_details) \<and>
           file_save env s
             (os_path_join UPLOAD_FOLDER (generated_name env (upper pid) file_filename))
             content =
             Inr (s\<lparr>files := (files s)
                   (os_path_join UPLOAD_FOLDER (generated_name env (upper pid) file_filename)
                      \<mapsto> content)\<rparr>) \<and>
           resp = \<lparr>body = UploadAck ''Image uploaded successfully and sent for AI processing.''
                            (length (images s)) ''Processing'',
                   status_code = 201\<rparr> \<and>
           s' = mock_process
                  (s\<lparr>files := (files s)
                       (os_path_join UPLOAD_FOLDER
                          (generated_name env (upper pid) file_filename) \<mapsto> content),
                     images := images s @
                       [new_image_record env (upper pid) patient_details
                          (generated_name env (upper pid) file_filename)
                          (os_path_join UPLOAD_FOLDER
                             (generated_name env (upper pid) file_filename))
                          (length content)]\<rparr>)
                  (length (images s))"
proof -
  from assms obtain file_filename content where
    f: "upload_files req ''file'' = Some (file_filename, content)"
    by (cases "upload_files req ''file''") (auto simp: upload_image_def)
  from assms f obtain pid where p: "form req ''patientId'' = Some pid"
    by (cases "form req ''patientId''") (auto simp: upload_image_def)
  from assms f p have ne: "file_filename \<noteq> []"
    by (auto simp: upload_image_def Let_def split: if_splits)
  obtain found where fd: "get_patient_details upper s (JString (upper pid)) = Inr found"
    by (simp add: get_patient_details_text)
  from assms f p ne fd obtain pd where d: "found = Some pd"
    by (cases found) (auto simp: upload_image_def Let_def)
  define fpath where
    "fpath = os_path_join UPLOAD_FOLDER (generated_name env (upper pid) file_filename)"
  from assms f p ne fd d have ok: "save_error env = None"
    by (cases "save_error env") (auto simp: upload_image_def Let_def file_save_def)
  then have sv: "file_save env s fpath content = Inr (s\<lparr>files := (files s)(fpath \<mapsto> content)\<rparr>)"
    by (simp add: file_save_def)
  have sz: "os_path_getsize (s\<lparr>files := (files s)(fpath \<mapsto> content)\<rparr>) fpath = Inr (length content)"
    by (simp add: os_path_getsize_def)
  from assms(1) f p ne fd d sv sz have
    "resp = \<lparr>body = UploadAck ''Image uploaded successfully and sent for AI processing.''
                            (length (images s)) ''Processing'',
                   status_code = 201\<rparr> \<and>
     s' = mock_process
            (s\<lparr>files := (files s)(fpath \<mapsto> content),
               images := images s @
                 [new_image_record env (upper pid) pd
                    (generated_name env (upper pid) file_filename) fpath (length content)]\<rparr>)
            (length (images s))"
    by (simp add: upload_image_def Let_def insert_image_def fpath_def [symmetric])
  with f p ne fd d sv show ?thesis unfolding fpath_def by blast
qed

lemma upload_image_stored:
  assumes "upload_image upper env s req = (Inr resp, s')"
    and "status_code resp = 201"
  shows "\<exists>r. images s' =
           images s @ [r\<lparr>image_status := ''Processed'',
                          ai_result := \<lparr>prediction = ''Low-Risk ROP Stage 1'',
                                        probability = 95 / 100,
                                        status = ''Pending Review''\<rparr>\<rparr>]"
proof -
  from upload_image_accepted [OF assms] obtain r st where
    "s' = mock_process (st\<lparr>images := images s @ [r]\<rparr>) (length (images s))"
    by (elim exE conjE) (rule that; assumption)
  then have "images s' =
           images s @ [r\<lparr>image_status := ''Processed'',
                          ai_result := \<lparr>prediction = ''Low-Risk ROP Stage 1'',
                                        probability = 95 / 100,
                                        status = ''Pending Review''\<rparr>\<rparr>]"
    by (simp add: mock_process_def)
  then show ?thesis by blast
qed

lemma review_queue_members:
  "StoredImage i r \<in> set (get_images_for_review env s) \<longleftrightarrow>
     i < length (images s) \<and> images s ! i = r \<and> review_query r"
proof (cases "filter (\<lambda>(i, r). review_query r) (enumerate 0 (images s)) = []")
  case True
  then have "\<forall>p\<in>set (enumerate 0 (images s)). \<not> review_query (snd p)"
    by (auto simp: filter_empty_conv)
  moreover have "i < length (images s) \<Longrightarrow> (i, images s ! i) \<in> set (enumerate 0 (images s))"
    by (simp add: in_set_enumerate_eq)
  ultimately have "\<not> (i < length (images s) \<and> images s ! i = r \<and> review_query r)"
    by fastforce
  with True show ?thesis by (simp add: get_images_for_review_def)
next
  case False
  then have "set (get_images_for_review env s) =
      (\<lambda>(i, r). StoredImage i r) ` {p \<in> set (enumerate 0 (images s)). review_query (snd p)}"
    by (auto simp: get_images_for_review_def Let_def)
  then show ?thesis by (auto simp: in_set_enumerate_eq)
qed

text \<open>
  Claim C1, as amended. Every accepted upload leaves its record with
  \<open>ai_result.status\<close> Pending Review and the fixed label Low-Risk ROP Stage 1, which is
  not a high-risk label. The review queue holds exactly the stored records whose status
  is Pending Review, whose label is one of the high-risk labels and which are not
  Reviewed; so the uploaded record is not queued for review.
\<close>

theorem upload_review_routing:
  assumes "upload_image upper env s req = (Inr resp, s')"
    and "status_code resp = 201"
  shows "status (ai_result (images s' ! length (images s))) = ''Pending Review'' \<and>
         prediction (ai_result (images s' ! length (images s))) = ''Low-Risk ROP Stage 1'' \<and>
         prediction (ai_result (images s' ! length (images s))) \<notin> set review_tags \<and>
         (\<forall>env' r. StoredImage (length (images s)) r \<notin> set (get_images_for_review env' s')) \<and>
         (\<forall>env' i r. StoredImage i r \<in> set (get_images_for_review env' s') \<longleftrightarrow>
            i < length (images s') \<and> images s' ! i = r \<and>
            status (ai_result r) = ''Pending Review'' \<and>
            prediction (ai_result r) \<in> set review_tags \<and>
            image_status r \<noteq> ''Reviewed'')"
proof -
  from upload_image_stored [OF assms] obtain r where
    im: "images s' =
           images s @ [r\<lparr>image_status := ''Processed'',
                          ai_result := \<lparr>prediction = ''Low-Risk ROP Stage 1'',
                                        probability = 95 / 100,
                                        status = ''Pending Review''\<rparr>\<rparr>]"
    by blast
  have a: "status (ai_result (images s' ! length (images s))) = ''Pending Review''"
    and b: "prediction (ai_result (images s' ! length (images s))) = ''Low-Risk ROP Stage 1''"
    by (simp_all add: im)
  have c: "''Low-Risk ROP Stage 1'' \<notin> set review_tags" by (simp add: review_tags_def)
  have d: "\<forall>env' i r. StoredImage i r \<in> set (get_images_for_review env' s') \<longleftrightarrow>
            i < length (images s') \<and> images s' ! i = r \<and>
            status (ai_result r) = ''Pending Review'' \<and>
            prediction (ai_result r) \<in> set review_tags \<and>
            image_status r \<noteq> ''Reviewed''"
    by (simp add: review_queue_members review_query_def)
  have e: "\<forall>env' r. StoredImage (length (images s)) r \<notin> set (get_images_for_review env' s')"
  proof (intro allI notI)
    fix env' r assume "StoredImage (length (images s)) r \<in> set (get_images_for_review env' s')"
    with d have "images s' ! length (images s) = r" "prediction (ai_result r) \<in> set review_tags"
      by blast+
    with b c show False by simp
  qed
  from a b c d e show ?thesis by simp
qed

theorem upload_review_routing_witness:
  "upload_image ascii_upper ex_app_env (run ascii_upper [AddPatient ex_app_env ex_patient]) ex_upload =
     (Inr \<lparr>body = UploadAck ''Image uploaded successfully and sent for AI processing.'' 0
                    ''Processing'',
           status_code = 201\<rparr>,
      snd (upload_image ascii_upper ex_app_env (run ascii_upper [AddPatient ex_app_env ex_patient]) ex_upload)) \<and>
   status (ai_result
     (images (snd (upload_image ascii_upper ex_app_env (run ascii_upper [AddPatient ex_app_env ex_patient]) ex_upload))
        ! 0)) = ''Pending Review'' \<and>
   prediction (ai_result
     (images (snd (upload_image ascii_upper ex_app_env (run ascii_upper [AddPatient ex_app_env ex_patient]) ex_upload))
        ! 0)) = ''Low-Risk ROP Stage 1'' \<and>
   get_images_for_review ex_app_env
     (snd (upload_image ascii_upper ex_app_env (run ascii_upper [AddPatient ex_app_env ex_patient]) ex_upload)) =
     [MockReview ''2024-05-01T10:00:00'']"
proof -
  let ?s' = "snd (upload_image ascii_upper ex_app_env (run ascii_upper [AddPatient ex_app_env ex_patient]) ex_upload)"
  have a: "upload_image ascii_upper ex_app_env (run ascii_upper [AddPatient ex_app_env ex_patient]) ex_upload =
     (Inr \<lparr>body = UploadAck ''Image uploaded successfully and sent for AI processing.'' 0
                    ''Processing'',
           status_code = 201\<rparr>, ?s')"
    using ex_upload_accepted by (simp add: prod_eq_iff)
  have b: "status_code \<lparr>body = UploadAck ''Image uploaded successfully and sent for AI processing.'' 0
                    ''Processing'', status_code = 201\<rparr> = 201" by simp
  note t = upload_review_routing [OF a b, unfolded ex_run_no_images, simplified]
  from upload_image_stored [OF a b] have len: "length (images ?s') = 1"
    by (auto simp: ex_run_no_images)
  have "\<forall>p\<in>set (enumerate 0 (images ?s')). \<not> review_query (snd p)"
  proof
    fix p assume p: "p \<in> set (enumerate 0 (images ?s'))"
    then have "fst p = 0" "snd p = images ?s' ! 0"
      using len by (auto simp: in_set_enumerate_eq)
    with t show "\<not> review_query (snd p)" by (simp add: review_query_def review_tags_def)
  qed
  then have "filter (\<lambda>(i, r). review_query r) (enumerate 0 (images ?s')) = []"
    by (auto simp: filter_empty_conv)
  then have q: "get_images_for_review ex_app_env ?s' = [MockReview ''2024-05-01T10:00:00'']"
    by (simp add: get_images_for_review_def ex_env_now)
  from a t q show ?thesis by simp
qed

text \<open>
  The claim as first stated tied the status to the label: after an accepted upload the
  status is Pending Review although the label is not a high-risk one.
\<close>

theorem upload_review_routing_counterexample:
  "fst (upload_image ascii_upper ex_app_env (run ascii_upper [AddPatient ex_app_env ex_patient]) ex_upload) =
     Inr \<lparr>body = UploadAck ''Image uploaded successfully and sent for AI processing.'' 0
                   ''Processing'',
          status_code = 201\<rparr> \<and>
   \<not> (status (ai_result
          (images (snd (upload_image ascii_upper ex_app_env (run ascii_upper [AddPatient ex_app_env ex_patient]) ex_upload))
             ! 0)) = ''Pending Review'' \<longleftrightarrow>
       prediction (ai_result
          (images (snd (upload_image ascii_upper ex_app_env (run ascii_upper [AddPatient ex_app_env ex_patient]) ex_upload))
             ! 0)) \<in> set review_tags)"
proof -
  let ?s' = "snd (upload_image ascii_upper ex_app_env (run ascii_upper [AddPatient ex_app_env ex_patient]) ex_upload)"
  have a: "upload_image ascii_upper ex_app_env (run ascii_upper [AddPatient ex_app_env ex_patient]) ex_upload =
     (Inr \<lparr>body = UploadAck ''Image uploaded successfully and sent for AI processing.'' 0
                    ''Processing'',
           status_code = 201\<rparr>, ?s')"
    using ex_upload_accepted by (simp add: prod_eq_iff)
  have b: "status_code \<lparr>body = UploadAck ''Image uploaded successfully and sent for AI processing.'' 0
                    ''Processing'', status_code = 201\<rparr> = 201" by simp
  from upload_image_stored [OF a b] obtain r where
    "images ?s' = [r\<lparr>image_status := ''Processed'',
                     ai_result := \<lparr>prediction = ''Low-Risk ROP Stage 1'',
                                   probability = 95 / 100,
                                   status = ''Pending Review''\<rparr>\<rparr>]"
    by (auto simp: ex_run_no_images)
  then have "status (ai_result (images ?s' ! 0)) = ''Pending Review''"
    "prediction (ai_result (images ?s' ! 0)) \<notin> set review_tags"
    by (simp_all add: review_tags_def)
  with ex_upload_accepted show ?thesis by simp
qed

text \<open>
  Claim C9. The response to an accepted upload has status code 201 and reports
  \<open>aiResult.status\<close> as Processing, while the record it has just stored already has
  overall status Processed and \<open>ai_result.status\<close> Pending Review.
\<close>

theorem upload_response_reports_processing:
  assumes "upload_image upper env s req = (Inr resp, s')"
    and "status_code resp = 201"
  shows "body resp = UploadAck ''Image uploaded successfully and sent for AI processing.''
                       (length (images s)) ''Processing'' \<and>
         length (images s') = Suc (length (images s)) \<and>
         image_status (images s' ! length (images s)) = ''Processed'' \<and>
         status (ai_result (images s' ! length (images s))) = ''Pending Review'' \<and>
         status (ai_result (images s' ! length (images s))) \<noteq> ''Processing''"
proof -
  from upload_image_accepted [OF assms] have
    r: "resp = \<lparr>body = UploadAck ''Image uploaded successfully and sent for AI processing.''
                            (length (images s)) ''Processing'',
                   status_code = 201\<rparr>"
    by (elim exE conjE)
  from upload_image_stored [OF assms] obtain r where
    im: "images s' =
           images s @ [r\<lparr>image_status := ''Processed'',
                          ai_result := \<lparr>prediction = ''Low-Risk ROP Stage 1'',
                                        probability = 95 / 100,
                                        status = ''Pending Review''\<rparr>\<rparr>]"
    by blast
  from r im show ?thesis by simp
qed

theorem upload_response_reports_processing_witness:
  "upload_image ascii_upper ex_app_env (run ascii_upper [AddPatient ex_app_env ex_patient]) ex_upload =
     (Inr \<lparr>body = UploadAck ''Image uploaded successfully and sent for AI processing.'' 0
                    ''Processing'',
           status_code = 201\<rparr>,
      snd (upload_image ascii_upper ex_app_env (run ascii_upper [AddPatient ex_app_env ex_patient]) ex_upload)) \<and>
   image_status
     (images (snd (upload_image ascii_upper ex_app_env (run ascii_upper [AddPatient ex_app_env ex_patient]) ex_upload))
        ! 0) = ''Processed'' \<and>
   status (ai_result
     (images (snd (upload_image ascii_upper ex_app_env (run ascii_upper [AddPatient ex_app_env ex_patient]) ex_upload))
        ! 0)) = ''Pending Review''"
proof -
  let ?s' = "snd (upload_image ascii_upper ex_app_env (run ascii_upper [AddPatient ex_app_env ex_patient]) ex_upload)"
  have a: "upload_image ascii_upper ex_app_env (run ascii_upper [AddPatient ex_app_env ex_patient]) ex_upload =
     (Inr \<lparr>body = UploadAck ''Image uploaded successfully and sent for AI processing.'' 0
                    ''Processing'',
           status_code = 201\<rparr>, ?s')"
    using ex_upload_accepted by (simp add: prod_eq_iff)
  have b: "status_code \<lparr>body = UploadAck ''Image uploaded successfully and sent for AI processing.'' 0
                    ''Processing'', status_code = 201\<rparr> = 201" by simp
  from upload_response_reports_processing [OF a b, unfolded ex_run_no_images] a
  show ?thesis by simp
qed

subsection \<open>Where the uploaded file is saved\<close>

text \<open>
  An accepted upload has saved the file before the record exists: the save happens in a
  state whose image collection is still the old one, the record carries the generated
  name and the path of the save, and the file is there afterwards. A save that fails
  leaves the state as it was.
\<close>

lemma upload_file_saved_before_insert:
  assumes "upload_image upper env s req = (Inr resp, s')"
    and "status_code resp = 201"
  shows "\<exists>file_filename content pid s1.
           upload_files req ''file'' = Some (file_filename, content) \<and>
           form req ''patientId'' = Some pid \<and>
           file_save env s
             (os_path_join UPLOAD_FOLDER (generated_name env (upper pid) file_filename))
             content = Inr s1 \<and>
           images s1 = images s \<and>
           files s1 (os_path_join UPLOAD_FOLDER (generated_name env (upper pid) file_filename)) =
             Some content \<and>
           length (images s') = Suc (length (images s)) \<and>
           filename (images s' ! length (images s)) =
             upper pid @ ''_'' @ uuid_hex env @ snd (os_path_splitext file_filename) \<and>
           filepath (images s' ! length (images s)) =
             os_path_join UPLOAD_FOLDER (generated_name env (upper pid) file_filename) \<and>
           files s' (filepath (images s' ! length (images s))) = Some content"
proof -
  from upload_image_accepted [OF assms] obtain file_filename content pid pd where
    f: "upload_files req ''file'' = Some (file_filename, content)" and
    p: "form req ''patientId'' = Some pid" and
    sv: "file_save env s
             (os_path_join UPLOAD_FOLDER (generated_name env (upper pid) file_filename))
             content =
             Inr (s\<lparr>files := (files s)
                   (os_path_join UPLOAD_FOLDER (generated_name env (upper pid) file_filename)
                      \<mapsto> content)\<rparr>)" and
    s': "s' = mock_process
                  (s\<lparr>files := (files s)
                       (os_path_join UPLOAD_FOLDER
                          (generated_name env (upper pid) file_filename) \<mapsto> content),
                     images := images s @
                       [new_image_record env (upper pid) pd
                          (generated_name env (upper pid) file_filename)
                          (os_path_join UPLOAD_FOLDER
                             (generated_name env (upper pid) file_filename))
                          (length content)]\<rparr>)
                  (length (images s))"
    by (elim exE conjE) (rule that; assumption)
  have a: "length (images s') = Suc (length (images s))"
    and b: "filename (images s' ! length (images s)) =
             upper pid @ ''_'' @ uuid_hex env @ snd (os_path_splitext file_filename)"
    and c: "filepath (images s' ! length (images s)) =
             os_path_join UPLOAD_FOLDER (generated_name env (upper pid) file_filename)"
    and d: "files s' (os_path_join UPLOAD_FOLDER
              (generated_name env (upper pid) file_filename)) = Some content"
    unfolding s' by (simp_all add: mock_process_def new_image_record_def generated_name_def)
  from d c have e: "files s' (filepath (images s' ! length (images s))) = Some content"
    by simp
  define s1 where "s1 = s\<lparr>files := (files s)
      (os_path_join UPLOAD_FOLDER (generated_name env (upper pid) file_filename)
         \<mapsto> content)\<rparr>"
  have g: "images s1 = images s"
    and h: "files s1 (os_path_join UPLOAD_FOLDER
              (generated_name env (upper pid) file_filename)) = Some content"
    by (simp_all add: s1_def)
  from sv have sv1: "file_save env s
      (os_path_join UPLOAD_FOLDER (generated_name env (upper pid) file_filename))
      content = Inr s1"
    by (simp only: s1_def)
  from f p sv1 g h a b c e show ?thesis by blast
qed

lemma failed_save_inserts_nothing:
  "save_error env = Some e \<Longrightarrow> snd (upload_image upper env s req) = s"
  by (auto simp: upload_image_def Let_def file_save_def get_patient_details_text
           split: option.splits)

text \<open>
  The path begins with the upload folder when the identifier does not begin with a slash.
  This is a fact about the text of the path only: an identifier such as \<open>../x\<close> still
  names a file outside the folder.
\<close>

lemma upload_path_in_folder:
  "patient_id \<noteq> [] \<Longrightarrow> hd patient_id \<noteq> CHR ''/'' \<Longrightarrow>
   os_path_join UPLOAD_FOLDER (generated_name env patient_id file_filename) =
     ''uploads/'' @ generated_name env patient_id file_filename"
  by (cases patient_id) (simp_all add: os_path_join_def generated_name_def UPLOAD_FOLDER_def)

text \<open>
  Claim C8 says that every accepted upload is saved in the configured folder. For the
  stored patient whose identifier is a slash the generated name begins with a slash,
  \<open>os.path.join\<close> drops the folder, and the upload, accepted when the process may write
  there, is saved at the root of the file system: nothing is written under the upload
  folder.
\<close>

theorem upload_escapes_upload_folder:
  "fst (upload_image ascii_upper ex_app_env (run ascii_upper [AddPatient ex_app_env ex_patient_slash]) ex_upload_slash) =
     Inr \<lparr>body = UploadAck ''Image uploaded successfully and sent for AI processing.'' 0
                   ''Processing'',
          status_code = 201\<rparr> \<and>
   filename (images (snd (upload_image ascii_upper ex_app_env (run ascii_upper [AddPatient ex_app_env ex_patient_slash])
      ex_upload_slash)) ! 0) = ''/_0f3a9c.png'' \<and>
   filepath (images (snd (upload_image ascii_upper ex_app_env (run ascii_upper [AddPatient ex_app_env ex_patient_slash])
      ex_upload_slash)) ! 0) = ''/_0f3a9c.png'' \<and>
   files (snd (upload_image ascii_upper ex_app_env (run ascii_upper [AddPatient ex_app_env ex_patient_slash])
      ex_upload_slash)) ''/_0f3a9c.png'' = Some [137, 80, 78, 71] \<and>
   files (snd (upload_image ascii_upper ex_app_env (run ascii_upper [AddPatient ex_app_env ex_patient_slash])
      ex_upload_slash)) ''uploads//_0f3a9c.png'' = None"
  unfolding ex_run_slash_patient
  by (simp add: upload_image_def ex_upload_slash_def get_patient_details_text find_one_def
        upper_slash new_patient_def Let_def
        ex_slash_generated_name join_absolute file_save_def os_path_getsize_def
        insert_image_def mock_process_def new_image_record_def empty_state_def
        ex_save_ok)

end
